theory Spec2Isabelle
  imports Main "HOL-Library.Char_ord" "HOL-Library.List_Lexorder"
begin

section \<open>Go strings and paths\<close>

text \<open>
  A Go string is a sequence of bytes; it is modelled as a \<open>string\<close> (a list of \<open>char\<close>,
  one per byte).  The functions of packages \<open>strings\<close> and \<open>path/filepath\<close> that the
  magefiles call are written out here with the behaviour of the Go standard library on a
  Unix host (path separator \<open>/\<close>).  Comparison of strings is bytewise and lexicographic,
  which is the order of \<open>HOL-Library.List_Lexorder\<close> over \<open>HOL-Library.Char_ord\<close>.
\<close>

definition nl :: string where
  "nl = [CHR 0x0A]"

definition quote :: string where
  "quote = [CHR 0x27]"

definition dquote :: string where
  "dquote = [CHR 0x22]"

text \<open>The non-ASCII characters of the messages, as their UTF-8 bytes.\<close>

definition magnifier :: string where
  "magnifier = [CHR 0xF0, CHR 0x9F, CHR 0x94, CHR 0x8D]"

definition play_button :: string where
  "play_button = [CHR 0xE2, CHR 0x96, CHR 0xB6, CHR 0xEF, CHR 0xB8, CHR 0x8F]"

definition check_mark :: string where
  "check_mark = [CHR 0xE2, CHR 0x9C, CHR 0x85]"

definition palette :: string where
  "palette = [CHR 0xF0, CHR 0x9F, CHR 0x8E, CHR 0xA8]"

definition compass :: string where
  "compass = [CHR 0xF0, CHR 0x9F, CHR 0xA7, CHR 0xAD]"

definition cross_mark :: string where
  "cross_mark = [CHR 0xE2, CHR 0x9D, CHR 0x8C]"

definition warning_sign :: string where
  "warning_sign = [CHR 0xE2, CHR 0x9A, CHR 0xA0, CHR 0xEF, CHR 0xB8, CHR 0x8F]"

definition em_dash :: string where
  "em_dash = [CHR 0xE2, CHR 0x80, CHR 0x94]"

definition wrench :: string where
  "wrench = [CHR 0xF0, CHR 0x9F, CHR 0x94, CHR 0xA7]"

definition package :: string where
  "package = [CHR 0xF0, CHR 0x9F, CHR 0x93, CHR 0xA6]"

definition honeybee :: string where
  "honeybee = [CHR 0xF0, CHR 0x9F, CHR 0x90, CHR 0x9D]"

definition information :: string where
  "information = [CHR 0xE2, CHR 0x84, CHR 0xB9, CHR 0xEF, CHR 0xB8, CHR 0x8F]"

definition computer :: string where
  "computer = [CHR 0xF0, CHR 0x9F, CHR 0x92, CHR 0xBB]"

subsection \<open>Package strings\<close>

definition HasPrefix :: "string \<Rightarrow> string \<Rightarrow> bool" where
  "HasPrefix s p = (take (length p) s = p)"

definition TrimPrefix :: "string \<Rightarrow> string \<Rightarrow> string" where
  "TrimPrefix s p = (if HasPrefix s p then drop (length p) s else s)"

fun Contains :: "string \<Rightarrow> string \<Rightarrow> bool" where
  "Contains [] sub = (sub = [])"
| "Contains (c # cs) sub = (HasPrefix (c # cs) sub \<or> Contains cs sub)"

text \<open>
  \<open>unicode.IsSpace\<close>: the white space of Go, each rune in its UTF-8 encoding: the ASCII
  characters tab, line feed, vertical tab, form feed, carriage return and space, then
  U+0085, U+00A0, U+1680, U+2000 to U+200A, U+2028, U+2029, U+202F, U+205F and U+3000.
  Go decodes a string rune by rune and takes an invalid byte as a rune of width one that
  is no space; since every encoding below starts with a byte that is no continuation
  byte, looking for these encodings byte by byte finds the same white space.
\<close>

definition spaceRunes :: "string list" where
  "spaceRunes =
     [[CHR 0x09], [CHR 0x0A], [CHR 0x0B], [CHR 0x0C], [CHR 0x0D], [CHR 0x20],
      [CHR 0xC2, CHR 0x85], [CHR 0xC2, CHR 0xA0], [CHR 0xE1, CHR 0x9A, CHR 0x80],
      [CHR 0xE2, CHR 0x80, CHR 0x80], [CHR 0xE2, CHR 0x80, CHR 0x81],
      [CHR 0xE2, CHR 0x80, CHR 0x82], [CHR 0xE2, CHR 0x80, CHR 0x83],
      [CHR 0xE2, CHR 0x80, CHR 0x84], [CHR 0xE2, CHR 0x80, CHR 0x85],
      [CHR 0xE2, CHR 0x80, CHR 0x86], [CHR 0xE2, CHR 0x80, CHR 0x87],
      [CHR 0xE2, CHR 0x80, CHR 0x88], [CHR 0xE2, CHR 0x80, CHR 0x89],
      [CHR 0xE2, CHR 0x80, CHR 0x8A], [CHR 0xE2, CHR 0x80, CHR 0xA8],
      [CHR 0xE2, CHR 0x80, CHR 0xA9], [CHR 0xE2, CHR 0x80, CHR 0xAF],
      [CHR 0xE2, CHR 0x81, CHR 0x9F], [CHR 0xE3, CHR 0x80, CHR 0x80]]"

text \<open>The width in bytes of the white-space rune \<open>s\<close> starts with, 0 when it starts with none.\<close>

definition spaceWidth :: "string \<Rightarrow> nat" where
  "spaceWidth s = (case find (HasPrefix s) spaceRunes of None \<Rightarrow> 0 | Some p \<Rightarrow> length p)"

text \<open>
  \<open>strings.Fields\<close>: the maximal runs of bytes between white space.  \<open>fieldsFrom skip
  cur s\<close> reads \<open>s\<close> with \<open>cur\<close> the field read so far and \<open>skip\<close> the bytes of a white-space
  rune still to pass over.
\<close>

fun fieldsFrom :: "nat \<Rightarrow> string \<Rightarrow> string \<Rightarrow> string list" where
  "fieldsFrom skip cur [] = (if cur = [] then [] else [cur])"
| "fieldsFrom skip cur (c # cs) =
     (if 0 < skip then fieldsFrom (skip - 1) cur cs
      else if 0 < spaceWidth (c # cs)
        then (if cur = [] then [] else [cur]) @ fieldsFrom (spaceWidth (c # cs) - 1) [] cs
        else fieldsFrom 0 (cur @ [c]) cs)"

definition Fields :: "string \<Rightarrow> string list" where
  "Fields s = fieldsFrom 0 [] s"

text \<open>\<open>strings.TrimSpace\<close>: all leading and all trailing white space removed.\<close>

fun trimLeft :: "string list \<Rightarrow> nat \<Rightarrow> string \<Rightarrow> string" where
  "trimLeft ps skip [] = []"
| "trimLeft ps skip (c # cs) =
     (if 0 < skip then trimLeft ps (skip - 1) cs
      else (case find (HasPrefix (c # cs)) ps of
              None \<Rightarrow> c # cs
            | Some p \<Rightarrow> if p = [] then c # cs else trimLeft ps (length p - 1) cs))"

definition TrimSpace :: "string \<Rightarrow> string" where
  "TrimSpace s = rev (trimLeft (map rev spaceRunes) 0 (rev (trimLeft spaceRunes 0 s)))"

text \<open>\<open>strings.Split(s, "\n")\<close>: the pieces between separators, at least one.\<close>

fun splitOn :: "char \<Rightarrow> string \<Rightarrow> string list" where
  "splitOn sep [] = [[]]"
| "splitOn sep (c # cs) =
     (if c = sep then [] # splitOn sep cs
      else (case splitOn sep cs of [] \<Rightarrow> [[c]] | x # xs \<Rightarrow> (c # x) # xs))"

fun joinWith :: "string \<Rightarrow> string list \<Rightarrow> string" where
  "joinWith sep [] = []"
| "joinWith sep [x] = x"
| "joinWith sep (x # y # ys) = x @ sep @ joinWith sep (y # ys)"

subsection \<open>Package path/filepath\<close>

text \<open>
  \<open>filepath.Clean\<close> works on the elements between separators: empty elements and \<open>.\<close>
  go, \<open>..\<close> removes the element before it, is kept at the start of a relative path and
  dropped at the root.
\<close>

fun cleanElems :: "bool \<Rightarrow> string list \<Rightarrow> string list \<Rightarrow> string list" where
  "cleanElems rooted out [] = out"
| "cleanElems rooted out (e # es) =
     (if e = [] \<or> e = ''.'' then cleanElems rooted out es
      else if e = ''..'' then
        (if out \<noteq> [] \<and> last out \<noteq> ''..'' then cleanElems rooted (butlast out) es
         else if \<not> rooted then cleanElems rooted (out @ [''..'']) es
         else cleanElems rooted out es)
      else cleanElems rooted (out @ [e]) es)"

definition Clean :: "string \<Rightarrow> string" where
  "Clean path =
     (if path = [] then ''.''
      else let rooted = (hd path = CHR ''/'');
               body = joinWith ''/'' (cleanElems rooted [] (splitOn CHR ''/'' path))
           in if rooted then ''/'' @ body else if body = [] then ''.'' else body)"

text \<open>\<open>filepath.Join\<close>: the elements from the first non-empty one on, joined and cleaned.\<close>

definition Join :: "string list \<Rightarrow> string" where
  "Join elem =
     (case dropWhile (\<lambda>e. e = []) elem of [] \<Rightarrow> [] | e # es \<Rightarrow> Clean (joinWith ''/'' (e # es)))"

definition Base :: "string \<Rightarrow> string" where
  "Base path =
     (if path = [] then ''.''
      else let p = rev (dropWhile (\<lambda>c. c = CHR ''/'') (rev path));
               b = rev (takeWhile (\<lambda>c. c \<noteq> CHR ''/'') (rev p))
           in if b = [] then ''/'' else b)"

section \<open>Errors, the host and the state of a run\<close>

text \<open>
  A Go \<open>error\<close> is built by \<open>errors.New\<close> or \<open>fmt.Errorf\<close> without \<open>%w\<close> (\<open>ErrorS\<close>, the
  message) or by \<open>fmt.Errorf\<close> with a final \<open>%w\<close> (\<open>Wrapf\<close>: the text before the wrapped
  error, and the wrapped error, which \<open>errors.Unwrap\<close> gives back).
\<close>

datatype goerr = ErrorS string | Wrapf string goerr

fun errorString :: "goerr \<Rightarrow> string" where
  "errorString (ErrorS m) = m"
| "errorString (Wrapf pre e) = pre @ errorString e"

fun Unwrap :: "goerr \<Rightarrow> goerr option" where
  "Unwrap (ErrorS m) = None"
| "Unwrap (Wrapf pre e) = Some e"

text \<open>
  What a function of type \<open>func() error\<close> does: it returns \<open>nil\<close> (\<open>Ok\<close>), returns an
  error, or panics.
\<close>

datatype result = Ok | Err goerr | Panic string

text \<open>\<open>xs[i]\<close> on a slice: a run-time panic when \<open>i\<close> is out of range.\<close>

definition index :: "'a list \<Rightarrow> nat \<Rightarrow> 'a option" where
  "index xs i = (if i < length xs then Some (xs ! i) else None)"

text \<open>
  The host is everything outside the program: the processes it starts, the file system
  and the process environment.  Its state is a value \<open>w\<close> of any type; a process may
  change it (an installer does), a look at the file system or the environment does not.
  A process is started in one of four ways, which differ in what comes back: standard
  output (\<open>Output\<close>), standard output and error (\<open>CombinedOutput\<close>), nothing (\<open>Run\<close>),
  or nothing with the output passed on to the terminal (mage's \<open>sh.RunV\<close>).
\<close>

datatype mode = Output | CombinedOutput | Run | ShRunV

record 'w host =
  proc :: "mode \<Rightarrow> string list \<Rightarrow> 'w \<Rightarrow> (string \<times> goerr option) \<times> 'w"
  lookPath :: "'w \<Rightarrow> string \<Rightarrow> goerr option"
  stat :: "'w \<Rightarrow> string \<Rightarrow> goerr option"
  getenv :: "'w \<Rightarrow> string \<Rightarrow> string"
  userHomeDir :: "'w \<Rightarrow> string"
  glob :: "'w \<Rightarrow> string \<Rightarrow> string list \<times> goerr option"
  GOOS :: string
  GOARCH :: string

text \<open>
  A run is followed through its state: the state of the host and the trace, which lists
  in order every line printed and every call to the host.
\<close>

datatype event =
    Print string
  | Exec mode "string list"
  | LookPath string
  | Stat string
  | Getenv string
  | UserHomeDir
  | Glob string

record 'w st =
  world :: 'w
  trace :: "event list"

definition emit :: "event \<Rightarrow> 'w st \<Rightarrow> 'w st" where
  "emit e s = s\<lparr>trace := trace s @ [e]\<rparr>"

definition Printf :: "string \<Rightarrow> 'w st \<Rightarrow> 'w st" where
  "Printf m s = emit (Print m) s"

definition Println :: "string \<Rightarrow> 'w st \<Rightarrow> 'w st" where
  "Println m s = emit (Print (m @ nl)) s"

definition command :: "'w host \<Rightarrow> mode \<Rightarrow> string list \<Rightarrow> 'w st \<Rightarrow> (string \<times> goerr option) \<times> 'w st" where
  "command h m argv s =
     (case proc h m argv (world s) of
        (r, w') \<Rightarrow> (r, \<lparr>world = w', trace = trace s @ [Exec m argv]\<rparr>))"

definition shRunV :: "'w host \<Rightarrow> string list \<Rightarrow> 'w st \<Rightarrow> goerr option \<times> 'w st" where
  "shRunV h argv s = (case command h ShRunV argv s of ((out, err), s') \<Rightarrow> (err, s'))"

definition cmdRun :: "'w host \<Rightarrow> string list \<Rightarrow> 'w st \<Rightarrow> goerr option \<times> 'w st" where
  "cmdRun h argv s = (case command h Run argv s of ((out, err), s') \<Rightarrow> (err, s'))"

definition execLookPath :: "'w host \<Rightarrow> string \<Rightarrow> 'w st \<Rightarrow> goerr option \<times> 'w st" where
  "execLookPath h file s = (lookPath h (world s) file, emit (LookPath file) s)"

definition osStat :: "'w host \<Rightarrow> string \<Rightarrow> 'w st \<Rightarrow> goerr option \<times> 'w st" where
  "osStat h name s = (stat h (world s) name, emit (Stat name) s)"

definition osGetenv :: "'w host \<Rightarrow> string \<Rightarrow> 'w st \<Rightarrow> string \<times> 'w st" where
  "osGetenv h key s = (getenv h (world s) key, emit (Getenv key) s)"

definition osUserHomeDir :: "'w host \<Rightarrow> 'w st \<Rightarrow> string \<times> 'w st" where
  "osUserHomeDir h s = (userHomeDir h (world s), emit UserHomeDir s)"

definition filepathGlob :: "'w host \<Rightarrow> string \<Rightarrow> 'w st \<Rightarrow> (string list \<times> goerr option) \<times> 'w st" where
  "filepathGlob h pattern s = (glob h (world s) pattern, emit (Glob pattern) s)"

section \<open>The Go toolchain\<close>

definition TargetGoVersion :: string where
  "TargetGoVersion = ''1.25.3''"

definition checkGoVersionLatest :: "'w host \<Rightarrow> 'w st \<Rightarrow> 'w st" where
  "checkGoVersionLatest h s0 =
     (case command h Output [''curl'', ''-s'', ''https://go.dev/VERSION?m=text''] s0 of
        ((out, Some e), s1) \<Rightarrow>
          Println ''Skipping Go version update check (network unavailable or offline).'' s1
      | ((out, None), s1) \<Rightarrow>
          (case splitOn CHR 0x0A (TrimSpace out) of
             [] \<Rightarrow> Println ''Unable to parse Go version information from remote source.'' s1
           | l0 # ls \<Rightarrow>
               let latest = TrimPrefix (TrimSpace l0) ''go'' in
               if latest = [] then
                 Println ''Unable to parse Go version information from remote source.'' s1
               else if latest \<noteq> TargetGoVersion then
                 Printf (''Note: a newer Go version is available ('' @ latest @
                         ''). You are pinned to '' @ TargetGoVersion @ ''.'' @ nl) s1
               else s1))"

definition verifyGoVersion :: "'w host \<Rightarrow> 'w st \<Rightarrow> result \<times> 'w st" where
  "verifyGoVersion h s0 =
     (case command h Output [''go'', ''version'']
             (Printf (''Target Go version: '' @ TargetGoVersion @ nl) s0) of
        ((out, Some e), s1) \<Rightarrow> (Err (ErrorS ''go binary not found in PATH''), s1)
      | ((out, None), s1) \<Rightarrow>
          let fields = Fields out in
          if length fields < 3 then
            (Err (ErrorS (''unexpected output from '' @ quote @ ''go version'' @ quote @ '': '' @ out)), s1)
          else
            (case index fields 2 of
               None \<Rightarrow> (Panic ''index out of range'', s1)
             | Some f2 \<Rightarrow>
                 let current = TrimPrefix f2 ''go'' in
                 if current \<noteq> TargetGoVersion then
                   (Err (ErrorS (''Go version mismatch: found '' @ current @ '', expected '' @
                                 TargetGoVersion)), s1)
                 else (Ok, checkGoVersionLatest h s1)))"

definition Go_Verify :: "'w host \<Rightarrow> 'w st \<Rightarrow> result \<times> 'w st" where
  "Go_Verify h s0 =
     (case verifyGoVersion h (Println ''Verifying Go installation...'' s0) of
        (Ok, s1) \<Rightarrow> (Ok, Println ''Go toolchain is correctly installed and verified.'' s1)
      | (r, s1) \<Rightarrow> (r, s1))"

text \<open>The part of \<open>installGoVersion\<close> after the download and the checksum.\<close>

definition installGoExtract :: "'w host \<Rightarrow> string \<Rightarrow> 'w st \<Rightarrow> result \<times> 'w st" where
  "installGoExtract h tmpFile s0 =
     (case shRunV h [''sudo'', ''rm'', ''-rf'', ''/usr/local/go'']
             (Println ''Extracting Go to /usr/local/go (requires sudo)...'' s0) of
        (Some e, s1) \<Rightarrow> (Err e, s1)
      | (None, s1) \<Rightarrow>
     (case shRunV h [''sudo'', ''tar'', ''-C'', ''/usr/local'', ''-xzf'', tmpFile] s1 of
        (Some e, s2) \<Rightarrow> (Err e, s2)
      | (None, s2) \<Rightarrow>
     (case shRunV h [''/usr/local/go/bin/go'', ''version'']
             (Println ''Verifying installation...'' s2) of
        (Some e, s3) \<Rightarrow> (Err e, s3)
      | (None, s3) \<Rightarrow>
     (case execLookPath h ''go'' s3 of
        (Some e, s4) \<Rightarrow>
          (Ok, Println (''Note: /usr/local/go/bin may not be in your PATH. '' @
                        ''You may need to update your shell configuration.'') s4)
      | (None, s4) \<Rightarrow> (Ok, s4)))))"

definition installGoVersion :: "'w host \<Rightarrow> string \<Rightarrow> 'w st \<Rightarrow> result \<times> 'w st" where
  "installGoVersion h version s0 =
     (if GOOS h \<noteq> ''linux'' \<and> GOOS h \<noteq> ''darwin'' then
        (Err (ErrorS (''unsupported OS: '' @ GOOS h)), s0)
      else if GOARCH h \<noteq> ''amd64'' \<and> GOARCH h \<noteq> ''arm64'' then
        (Err (ErrorS (''unsupported architecture: '' @ GOARCH h)), s0)
      else
        let goOS = GOOS h; goArch = GOARCH h;
            url = ''https://go.dev/dl/go'' @ version @ ''.'' @ goOS @ ''-'' @ goArch @ ''.tar.gz'';
            tmpFile = ''/tmp/go'' @ version @ ''.'' @ goOS @ ''-'' @ goArch @ ''.tar.gz'';
            checksumURL = url @ ''.sha256'';
            checksumFile = tmpFile @ ''.sha256''
        in
        (case shRunV h [''curl'', ''-L'', ''-o'', tmpFile, url]
                (Printf (''Downloading Go '' @ version @ '' for '' @ goOS @ ''/'' @ goArch @
                         ''...'' @ nl) s0) of
           (Some e, s1) \<Rightarrow> (Err (Wrapf ''failed to download Go: '' e), s1)
         | (None, s1) \<Rightarrow>
        (case shRunV h [''curl'', ''-s'', ''-L'', ''-o'', checksumFile, checksumURL] s1 of
           (Some e, s2) \<Rightarrow> installGoExtract h tmpFile s2
         | (None, s2) \<Rightarrow>
        (case shRunV h [''sha256sum'', ''-c'', checksumFile]
                (Println ''Verifying checksum...'' s2) of
           (Some e, s3) \<Rightarrow> (Err (Wrapf ''checksum verification failed: '' e), s3)
         | (None, s3) \<Rightarrow> installGoExtract h tmpFile s3))))"

definition Go_Deps :: "'w host \<Rightarrow> 'w st \<Rightarrow> result \<times> 'w st" where
  "Go_Deps h s0 =
     (case Go_Verify h (Println ''Ensuring Go dependencies...'' s0) of
        (Ok, s1) \<Rightarrow> (Ok, Println ''Go is already installed and up to date.'' s1)
      | (Panic p, s1) \<Rightarrow> (Panic p, s1)
      | (Err e0, s1) \<Rightarrow>
     (case installGoVersion h TargetGoVersion
             (Printf (''Installing Go '' @ TargetGoVersion @ ''...'' @ nl) s1) of
        (Err e, s2) \<Rightarrow> (Err (Wrapf (''failed to install Go '' @ TargetGoVersion @ '': '') e), s2)
      | (Panic p, s2) \<Rightarrow> (Panic p, s2)
      | (Ok, s2) \<Rightarrow>
     (case Go_Verify h (Println ''Re-verifying Go installation...'' s2) of
        (Err e, s3) \<Rightarrow> (Err (Wrapf ''Go installation did not verify successfully: '' e), s3)
      | (Panic p, s3) \<Rightarrow> (Panic p, s3)
      | (Ok, s3) \<Rightarrow> (Ok, Println ''Go successfully installed and verified.'' s3))))"

section \<open>The Mermaid CLI\<close>

definition TargetMermaidVersion :: string where
  "TargetMermaidVersion = ''10.9.0''"

definition Mermaid_Verify :: "'w host \<Rightarrow> 'w st \<Rightarrow> result \<times> 'w st" where
  "Mermaid_Verify h s0 =
     (case command h CombinedOutput [''mmdc'', ''--version'']
             (Println ''Verifying Mermaid CLI installation...'' s0) of
        ((out, Some e), s1) \<Rightarrow>
          (Err (ErrorS (cross_mark @ '' Mermaid CLI not found in PATH. Install it with:'' @ nl @
                        ''   npm install -g @mermaid-js/mermaid-cli@'' @ TargetMermaidVersion)), s1)
      | ((out, None), s1) \<Rightarrow>
          let version = TrimSpace out in
          if \<not> Contains version TargetMermaidVersion then
            (Err (ErrorS (cross_mark @ '' Mermaid CLI version mismatch: found '' @ quote @ version @
                          quote @ '', expected '' @ TargetMermaidVersion)), s1)
          else
            (Ok, Printf (check_mark @ '' Mermaid CLI '' @ TargetMermaidVersion @
                         '' verified successfully.'' @ nl) s1))"

definition libs :: "string list" where
  "libs =
     [''libatk1.0-0t64'', ''libatk-bridge2.0-0t64'', ''libcups2t64'', ''libdrm2'', ''libxkbcommon0'',
      ''libxdamage1'', ''libxfixes3'', ''libxrandr2'', ''libasound2t64'', ''libatspi2.0-0t64'',
      ''libpangocairo-1.0-0'', ''libpango-1.0-0'', ''libcairo2'', ''libgbm1'', ''libnss3'',
      ''libxshmfence1'', ''libxcomposite1'', ''libxext6'', ''libx11-6'', ''libx11-xcb1'',
      ''libxcb1'', ''libxrender1'', ''fonts-liberation'', ''libgtk-3-0t64'']"

text \<open>The first loop of \<open>VerifySystemLibs\<close>: \<open>dpkg -s\<close> on each package, the missing ones collected.\<close>

fun missingLibs :: "'w host \<Rightarrow> string list \<Rightarrow> string list \<Rightarrow> 'w st \<Rightarrow> string list \<times> 'w st" where
  "missingLibs h [] missing s = (missing, s)"
| "missingLibs h (pkg # pkgs) missing s =
     (case cmdRun h [''dpkg'', ''-s'', pkg] s of
        (Some e, s') \<Rightarrow> missingLibs h pkgs (missing @ [pkg]) s'
      | (None, s') \<Rightarrow> missingLibs h pkgs missing s')"

text \<open>The verb \<open>%d\<close> of \<open>fmt.Printf\<close> on a length.\<close>

fun itoa :: "nat \<Rightarrow> string" where
  "itoa n = (if n < 10 then [char_of (48 + n)] else itoa (n div 10) @ [char_of (48 + n mod 10)])"

definition Mermaid_VerifySystemLibs :: "'w host \<Rightarrow> 'w st \<Rightarrow> result \<times> 'w st" where
  "Mermaid_VerifySystemLibs h s0 =
     (case missingLibs h libs []
             (Println (magnifier @ '' Verifying required system libraries for Mermaid CLI...'') s0) of
        (missing, s1) \<Rightarrow>
          if length missing = 0 then
            (Ok, Println (check_mark @ '' All required system libraries are installed.'') s1)
          else
            let s2 = Printf (warning_sign @ ''  Missing '' @ itoa (length missing) @ '' libraries:'' @ nl) s1;
                s3 = fold (\<lambda>pkg. Printf (''   - '' @ pkg @ nl)) missing s2;
                s4 = Println (nl @ ''Installing missing libraries (requires sudo)...'') s3
            in
            (case shRunV h [''sudo'', ''apt-get'', ''update'', ''-q''] s4 of
               (Some e, s5) \<Rightarrow> (Err (Wrapf ''failed to update package lists: '' e), s5)
             | (None, s5) \<Rightarrow>
            (case shRunV h (''sudo'' # ([''apt-get'', ''install'', ''-y''] @ missing)) s5 of
               (Some e, s6) \<Rightarrow> (Err (Wrapf ''failed to install required libraries: '' e), s6)
             | (None, s6) \<Rightarrow>
                 (Ok, Println (check_mark @ '' All required libraries installed successfully.'') s6))))"

definition Mermaid_Deps :: "'w host \<Rightarrow> 'w st \<Rightarrow> result \<times> 'w st" where
  "Mermaid_Deps h s0 =
     (case Mermaid_VerifySystemLibs h (Println ''Ensuring Mermaid CLI dependencies...'' s0) of
        (Err e, s1) \<Rightarrow> (Err (Wrapf ''system library verification failed: '' e), s1)
      | (Panic p, s1) \<Rightarrow> (Panic p, s1)
      | (Ok, s1) \<Rightarrow>
     (case Mermaid_Verify h s1 of
        (Ok, s2) \<Rightarrow> (Ok, Println (check_mark @ '' Mermaid CLI already installed and up to date.'') s2)
      | (Panic p, s2) \<Rightarrow> (Panic p, s2)
      | (Err e0, s2) \<Rightarrow>
     (case shRunV h [''npm'', ''install'', ''-g'', ''@mermaid-js/mermaid-cli@'' @ TargetMermaidVersion]
             (Printf (''Installing Mermaid CLI '' @ TargetMermaidVersion @ '' globally via npm...'' @ nl) s2) of
        (Some e, s3) \<Rightarrow>
          (Err (Wrapf (''failed to install Mermaid CLI '' @ TargetMermaidVersion @ '': '') e), s3)
      | (None, s3) \<Rightarrow>
     (case Mermaid_Verify h (Println ''Re-verifying Mermaid installation...'' s3) of
        (Err e, s4) \<Rightarrow> (Err (Wrapf ''Mermaid CLI installation did not verify successfully: '' e), s4)
      | (Panic p, s4) \<Rightarrow> (Panic p, s4)
      | (Ok, s4) \<Rightarrow>
          (Ok, Printf (check_mark @ '' Mermaid CLI '' @ TargetMermaidVersion @
                       '' successfully installed and verified.'' @ nl) s4)))))"

section \<open>Git\<close>

definition Git_Verify :: "'w host \<Rightarrow> 'w st \<Rightarrow> result \<times> 'w st" where
  "Git_Verify h s0 =
     (case command h CombinedOutput [''git'', ''--version'']
             (Println ''Verifying Git installation...'' s0) of
        ((out, Some e), s1) \<Rightarrow> (Err (Wrapf (cross_mark @ '' Git not found in PATH: '') e), s1)
      | ((out, None), s1) \<Rightarrow> (Ok, Println (check_mark @ '' '' @ TrimSpace out) s1))"

definition Git_Config :: "'w host \<Rightarrow> 'w st \<Rightarrow> result \<times> 'w st" where
  "Git_Config h s0 =
     (case command h Output [''git'', ''config'', ''--global'', ''user.name'']
             (Println ''Checking Git user configuration...'' s0) of
        ((name, e1), s1) \<Rightarrow>
     (case command h Output [''git'', ''config'', ''--global'', ''user.email''] s1 of
        ((email, e2), s2) \<Rightarrow>
          if TrimSpace name = [] \<or> TrimSpace email = [] then
            (Ok, Println (''  git config --global user.email '' @ dquote @ ''you@example.com'' @ dquote)
                  (Println (''  git config --global user.name '' @ dquote @ ''Your Name'' @ dquote)
                  (Println ''To set globally, run:''
                  (Println (warning_sign @ '' Git user.name or user.email is not configured.'') s2))))
          else
            (Ok, Printf (check_mark @ '' Git user configured as '' @ TrimSpace name @ '' <'' @
                         TrimSpace email @ ''>'' @ nl) s2)))"

definition Git_Deps :: "'w host \<Rightarrow> 'w st \<Rightarrow> result \<times> 'w st" where
  "Git_Deps h s0 =
     (case Git_Verify h s0 of
        (Ok, s1) \<Rightarrow> (case Git_Config h s1 of (Ok, s2) \<Rightarrow> (Ok, s2) | (r, s2) \<Rightarrow> (r, s2))
      | (r, s1) \<Rightarrow> (r, s1))"

section \<open>The orchestrator\<close>

type_synonym 'w step = "string \<times> ('w st \<Rightarrow> result \<times> 'w st)"

text \<open>The loop of \<open>Deps.Verify\<close> over its steps.\<close>

fun verifySteps :: "'w step list \<Rightarrow> 'w st \<Rightarrow> result \<times> 'w st" where
  "verifySteps [] s = (Ok, s)"
| "verifySteps ((name, fn) # steps) s =
     (case fn (Printf (''Checking: '' @ name @ ''...'' @ nl) s) of
        (Ok, s') \<Rightarrow> verifySteps steps s'
      | (Err e, s') \<Rightarrow> (Err (Wrapf (name @ '' verification failed: '') e), s')
      | (Panic p, s') \<Rightarrow> (Panic p, s'))"

definition Deps_Verify :: "'w host \<Rightarrow> 'w st \<Rightarrow> result \<times> 'w st" where
  "Deps_Verify h s0 =
     (case verifySteps
             [(''Go toolchain'', Go_Verify h),
              (''Mermaid CLI'', Mermaid_Verify h),
              (''Git availability'', Git_Verify h)]
             (Println (compass @ '' Verifying installed dependencies for Wiki-Diagrams...'') s0) of
        (Ok, s1) \<Rightarrow> (Ok, Println (nl @ check_mark @ '' All dependency verifications passed successfully.'') s1)
      | (r, s1) \<Rightarrow> (r, s1))"

text \<open>
  mage's \<open>mg.Deps(f)\<close> runs the target \<open>f\<close> (once in a process; here it has not run before)
  and panics with the message of its error when it fails.
\<close>

definition mgDeps :: "('w st \<Rightarrow> result \<times> 'w st) \<Rightarrow> 'w st \<Rightarrow> result \<times> 'w st" where
  "mgDeps fn s =
     (case fn s of
        (Ok, s') \<Rightarrow> (Ok, s')
      | (Err e, s') \<Rightarrow> (Panic (errorString e), s')
      | (Panic p, s') \<Rightarrow> (Panic p, s'))"

text \<open>The loop of \<open>Deps.All\<close> over its steps.\<close>

fun ensureSteps :: "'w step list \<Rightarrow> 'w st \<Rightarrow> result \<times> 'w st" where
  "ensureSteps [] s = (Ok, s)"
| "ensureSteps ((name, fn) # steps) s =
     (case fn (Printf (play_button @ ''  Starting: '' @ name @ ''...'' @ nl) s) of
        (Ok, s') \<Rightarrow>
          ensureSteps steps
            (Printf (check_mark @ '' Completed: '' @ name @ '' verified successfully.'' @ nl @ nl) s')
      | (Err e, s') \<Rightarrow> (Err (Wrapf (name @ '' failed: '') e), s')
      | (Panic p, s') \<Rightarrow> (Panic p, s'))"

definition Deps_steps :: "'w host \<Rightarrow> 'w step list" where
  "Deps_steps h =
     [(''Go toolchain'', Go_Deps h),
      (''Mermaid CLI'', Mermaid_Deps h),
      (''Git configuration'', Git_Deps h)]"

definition Deps_All :: "'w host \<Rightarrow> 'w st \<Rightarrow> result \<times> 'w st" where
  "Deps_All h s0 =
     (case ensureSteps (Deps_steps h)
             (Println (magnifier @ '' Ensuring all dependencies for Wiki-Diagrams are installed and verified...'') s0) of
        (Ok, s1) \<Rightarrow>
          (case mgDeps (Deps_Verify h)
                  (Println (nl @ magnifier @ '' Running post-install verification pipeline...'') s1) of
             (Ok, s2) \<Rightarrow>
               (Ok, Println (palette @ '' All dependencies are installed, configured, and verified successfully.'') s2)
           | (r, s2) \<Rightarrow> (r, s2))
      | (r, s1) \<Rightarrow> (r, s1))"

section \<open>The GitHub App private key\<close>

definition secretName :: string where
  "secretName = ''wiki_diagram_app_key''"

definition swarmSecretPath :: string where
  "swarmSecretPath = ''/run/secrets/'' @ secretName"

definition Docker_Secrets :: "'w host \<Rightarrow> 'w st \<Rightarrow> result \<times> 'w st" where
  "Docker_Secrets h s0 =
     (case osStat h swarmSecretPath
             (Println (wrench @ '' Ensuring GitHub App private key is available...'') s0) of
        (None, s1) \<Rightarrow>
          (Ok, Println (check_mark @ '' GitHub App key available via Docker secret:'' @ '' '' @
                        swarmSecretPath) s1)
      | (Some e0, s1) \<Rightarrow>
     (case osUserHomeDir h s1 of
        (home, s2) \<Rightarrow>
          let searchDir = Join [home, ''.config'', ''github-apps''] in
     (case filepathGlob h (Join [searchDir, ''wiki-diagram-publisher*.pem'']) s2 of
        ((matches, Some err), s3) \<Rightarrow>
          (Err (Wrapf (''error searching for GitHub App key in '' @ searchDir @ '': '') err), s3)
      | ((matches, None), s3) \<Rightarrow>
          if length matches = 0 then
            (Err (ErrorS (''no local GitHub App key found in '' @ searchDir @ '' '' @ em_dash @
                          '' please download from GitHub App settings'')), s3)
          else
     (case index matches (length matches - 1) of
        None \<Rightarrow> (Panic ''index out of range'', s3)
      | Some localKey \<Rightarrow>
     (case command h Output [''docker'', ''info'', ''--format'', ''{{.Swarm.ControlAvailable}}'']
             (Printf (package @ '' Found local GitHub App key: '' @ Base localKey @ nl) s3) of
        ((out, e1), s4) \<Rightarrow>
          if TrimSpace out = ''true'' then
            (case shRunV h [''docker'', ''secret'', ''create'', secretName, localKey]
                    (Println (honeybee @ '' Swarm mode detected '' @ em_dash @
                              '' creating Docker secret...'') s4) of
               (Some err, s5) \<Rightarrow>
                 if Contains (errorString err) ''already exists'' then
                   (Ok, Println (information @ ''  Docker secret already exists, skipping creation.'') s5)
                 else (Err (Wrapf ''failed to create Docker secret: '' err), s5)
             | (None, s5) \<Rightarrow> (Ok, Println (check_mark @ '' Docker secret created successfully.'') s5))
          else
            (Ok, Println (computer @ '' Running in non-Swarm mode '' @ em_dash @
                          '' using local key directly for verification.'') s4))))))"

definition secretPath :: string where
  "secretPath = ''/run/secrets/wiki_diagram_app_key''"

definition verifyGitHubAppKey :: "'w host \<Rightarrow> 'w st \<Rightarrow> result \<times> 'w st" where
  "verifyGitHubAppKey h s0 =
     (case osGetenv h ''WIKI_APP_PRIVATE_KEY_PATH'' s0 of
        (keyPath, s1) \<Rightarrow>
          if keyPath \<noteq> [] then
            (case osStat h keyPath s1 of
               (Some err, s2) \<Rightarrow>
                 (Err (Wrapf (''GitHub App key missing at '' @ keyPath @ '': '') err), s2)
             | (None, s2) \<Rightarrow>
                 (Ok, Println (package @ '' Using GitHub App key from environment variable:'' @ '' '' @
                               keyPath) s2))
          else
     (case osStat h secretPath s1 of
        (None, s2) \<Rightarrow>
          (Ok, Println (package @ '' Using GitHub App key from Docker secret:'' @ '' '' @ secretPath) s2)
      | (Some e0, s2) \<Rightarrow>
     (case osUserHomeDir h s2 of
        (home, s3) \<Rightarrow>
          let searchDir = Join [home, ''.config'', ''github-apps''] in
     (case filepathGlob h (Join [searchDir, ''wiki-diagram-publisher*.pem''])
             (Println (magnifier @ '' Searching for key files in:'' @ '' '' @ searchDir) s3) of
        ((matches, Some err), s4) \<Rightarrow>
          (Err (Wrapf (''error searching for GitHub App key in '' @ searchDir @ '': '') err), s4)
      | ((matches, None), s4) \<Rightarrow>
          if length matches = 0 then
            (Err (ErrorS (''no GitHub App key found '' @ em_dash @ '' expected one of:'' @ nl @
                          ''  - env var: WIKI_APP_PRIVATE_KEY_PATH'' @ nl @
                          ''  - Docker secret: '' @ secretPath @ nl @
                          ''  - local file: ~/.config/github-apps/wiki-diagram-publisher*.pem'')), s4)
          else
     (case index matches (length matches - 1) of
        None \<Rightarrow> (Panic ''index out of range'', s4)
      | Some latestKey \<Rightarrow>
     (case osStat h latestKey s4 of
        (Some err, s5) \<Rightarrow> (Err (Wrapf ''GitHub App key found but unreadable: '' err), s5)
      | (None, s5) \<Rightarrow>
          (Ok, Println (computer @ '' Using local GitHub App key:'' @ '' '' @ latestKey) s5)))))))"

section \<open>Reading a trace\<close>

text \<open>The processes started in a trace, in order.\<close>

fun commands :: "event list \<Rightarrow> (mode \<times> string list) list" where
  "commands [] = []"
| "commands (Exec m argv # es) = (m, argv) # commands es"
| "commands (e # es) = commands es"

text \<open>
  The processes started through \<open>sh.RunV\<close>.  In the functions above every download,
  installation and creation goes through it, and the queries of the verifications
  (\<open>go version\<close>, \<open>curl -s\<close>, \<open>mmdc --version\<close>, \<open>dpkg -s\<close>, \<open>docker info\<close>) do not.
\<close>

definition installs :: "event list \<Rightarrow> string list list" where
  "installs t = map snd (filter (\<lambda>c. fst c = ShRunV) (commands t))"

text \<open>
  The hosts that the queries of \<open>Go.Verify\<close>, \<open>Mermaid.Verify\<close> and the check of the system
  libraries leave as they are.
\<close>

definition readOnlyQueries :: "'w host \<Rightarrow> bool" where
  "readOnlyQueries h \<longleftrightarrow>
     (\<forall>w. snd (proc h Output [''go'', ''version''] w) = w) \<and>
     (\<forall>w. snd (proc h Output [''curl'', ''-s'', ''https://go.dev/VERSION?m=text''] w) = w) \<and>
     (\<forall>w. snd (proc h CombinedOutput [''mmdc'', ''--version''] w) = w) \<and>
     (\<forall>pkg w. snd (proc h Run [''dpkg'', ''-s'', pkg] w) = w)"

section \<open>Hosts for concrete runs\<close>

text \<open>
  Hosts with scripted answers, whose state is a number.  \<open>scripted run env st ms\<close> answers
  every process by \<open>run\<close>, the environment by \<open>env\<close>, \<open>os.Stat\<close> by \<open>st\<close> and every glob by
  the matches \<open>ms\<close>.
\<close>

definition scripted ::
  "(string list \<Rightarrow> nat \<Rightarrow> (string \<times> goerr option) \<times> nat) \<Rightarrow> (string \<Rightarrow> string) \<Rightarrow>
   (string \<Rightarrow> goerr option) \<Rightarrow> string list \<Rightarrow> nat host" where
  "scripted run env st ms =
     \<lparr>proc = (\<lambda>m. run), lookPath = (\<lambda>w file. None), stat = (\<lambda>w. st), getenv = (\<lambda>w. env),
      userHomeDir = (\<lambda>w. ''/home/u''), glob = (\<lambda>w pattern. (ms, None)),
      GOOS = ''linux'', GOARCH = ''amd64''\<rparr>"

definition exitStatus1 :: goerr where
  "exitStatus1 = ErrorS ''exit status 1''"

definition noSuchFile :: goerr where
  "noSuchFile = ErrorS ''no such file or directory''"

definition start :: "nat st" where
  "start = \<lparr>world = 0, trace = []\<rparr>"

text \<open>
  A host with Go 1.24.0, where unpacking the archive of Go 1.25.3 installs it (state 1);
  the network is up, the Mermaid CLI 10.9.0 and every system library are installed.
\<close>

definition runFresh :: "string list \<Rightarrow> nat \<Rightarrow> (string \<times> goerr option) \<times> nat" where
  "runFresh argv w =
     (if argv = [''go'', ''version''] then
        ((if w = 0 then ''go version go1.24.0 linux/amd64'' @ nl
          else ''go version go1.25.3 linux/amd64'' @ nl, None), w)
      else if argv = [''sudo'', ''tar'', ''-C'', ''/usr/local'', ''-xzf'', ''/tmp/go1.25.3.linux-amd64.tar.gz'']
        then (([], None), 1)
      else if argv = [''curl'', ''-s'', ''https://go.dev/VERSION?m=text'']
        then ((''go1.25.3'' @ nl @ ''time 2025-10-13T16:08:43Z'' @ nl, None), w)
      else if argv = [''mmdc'', ''--version''] then ((''10.9.0'' @ nl, None), w)
      else (([], None), w))"

definition hostFresh :: "nat host" where
  "hostFresh = scripted runFresh (\<lambda>k. []) (\<lambda>p. Some noSuchFile) []"

text \<open>A host whose \<open>go version\<close> prints \<open>out\<close> and whose every other process fails.\<close>

definition goHost :: "string \<Rightarrow> nat host" where
  "goHost out =
     scripted (\<lambda>argv w. if argv = [''go'', ''version''] then ((out, None), w)
                         else (([], Some exitStatus1), w))
       (\<lambda>k. []) (\<lambda>p. Some noSuchFile) []"

text \<open>A host whose \<open>mmdc --version\<close> prints \<open>out\<close>, with the package \<open>missing\<close> not installed.\<close>

definition mermaidHost :: "string \<Rightarrow> string \<Rightarrow> nat host" where
  "mermaidHost out missing =
     scripted (\<lambda>argv w. if argv = [''mmdc'', ''--version''] then ((out, None), w)
                         else if argv = [''dpkg'', ''-s'', missing] then (([], Some exitStatus1), w)
                         else (([], None), w))
       (\<lambda>k. []) (\<lambda>p. Some noSuchFile) []"

text \<open>A host with no process of interest: the environment, the files and the glob matches count.\<close>

definition keyHost :: "string \<Rightarrow> string list \<Rightarrow> string list \<Rightarrow> nat host" where
  "keyHost override files ms =
     scripted (\<lambda>argv w. (([], None), w))
       (\<lambda>k. if k = ''WIKI_APP_PRIVATE_KEY_PATH'' then override else [])
       (\<lambda>p. if p \<in> set files then None else Some noSuchFile) ms"

text \<open>
  \<open>filepath.Glob\<close> on the pattern \<open>dir/wiki-diagram-publisher*.pem\<close>, for a directory \<open>dir\<close>
  without metacharacters that holds the entries \<open>names\<close>: the Go library reads the names,
  sorts them, keeps those that \<open>filepath.Match\<close> accepts (the prefix, any run of bytes
  without \<open>/\<close>, the suffix) and joins each to the directory.
\<close>

definition matchKeyPattern :: "string \<Rightarrow> bool" where
  "matchKeyPattern name =
     (let pre = ''wiki-diagram-publisher''; suf = ''.pem'' in
      length pre + length suf \<le> length name \<and>
      take (length pre) name = pre \<and>
      drop (length name - length suf) name = suf \<and>
      CHR ''/'' \<notin> set (drop (length pre) (take (length name - length suf) name)))"

definition globDir :: "string \<Rightarrow> string list \<Rightarrow> string list" where
  "globDir dir names = map (\<lambda>n. Join [dir, n]) (filter matchKeyPattern (sort names))"

text \<open>
  A host without override and secret mount, whose directory \<open>~/.config/github-apps\<close> holds
  the entries \<open>names\<close>.
\<close>

definition dirHost :: "string list \<Rightarrow> nat host" where
  "dirHost names =
     scripted (\<lambda>argv w. (([], None), w)) (\<lambda>k. [])
       (\<lambda>p. if p \<in> set (map (\<lambda>n. Join [''/home/u/.config/github-apps'', n]) names) then None
             else Some noSuchFile)
       (globDir ''/home/u/.config/github-apps'' names)"

text \<open>
  A Swarm manager without the secret mount, with one local key, where \<open>docker secret
  create\<close> fails with \<open>err\<close>.
\<close>

definition swarmHost :: "goerr \<Rightarrow> nat host" where
  "swarmHost err =
     scripted (\<lambda>argv w. if argv = [''docker'', ''info'', ''--format'', ''{{.Swarm.ControlAvailable}}'']
                           then ((''true'' @ nl, None), w)
                         else if take 3 argv = [''docker'', ''secret'', ''create''] then (([], Some err), w)
                         else (([], None), w))
       (\<lambda>k. []) (\<lambda>p. Some noSuchFile)
       [''/home/u/.config/github-apps/wiki-diagram-publisher.2024-06-01.private-key.pem'']"

text \<open>Steps for a run of the loop of \<open>Deps.All\<close>: they print a line and succeed or fail.\<close>

definition stepOk :: "string \<Rightarrow> nat st \<Rightarrow> result \<times> nat st" where
  "stepOk tag s = (Ok, Println tag s)"

definition stepFail :: "string \<Rightarrow> goerr \<Rightarrow> nat st \<Rightarrow> result \<times> nat st" where
  "stepFail tag e s = (Err e, Println tag s)"

text \<open>
  mage's \<open>sh.RunV\<close> passes what the command prints on to the terminal.  When the command has
  run and has exited with a code other than 0, the error it returns is \<open>running "cmd args"
  failed with exit code N\<close>: the words of the command are not in it.
\<close>

definition runVError :: "string \<Rightarrow> string list \<Rightarrow> nat \<Rightarrow> goerr" where
  "runVError cmd args code =
     ErrorS (''running '' @ dquote @ cmd @ '' '' @ joinWith '' '' args @ dquote @
             '' failed with exit code '' @ itoa code)"

text \<open>
  A Swarm manager on which the secret \<open>wiki_diagram_app_key\<close> exists: \<open>docker secret create\<close>
  prints \<open>Error response from daemon: rpc error: code = AlreadyExists desc = secret
  wiki_diagram_app_key already exists\<close> and exits with code 1, which \<open>sh.RunV\<close> turns into
  its error.
\<close>

definition hostSecretExists :: "nat host" where
  "hostSecretExists =
     swarmHost (runVError ''docker''
       [''secret'', ''create'', ''wiki_diagram_app_key'',
        ''/home/u/.config/github-apps/wiki-diagram-publisher.2024-06-01.private-key.pem''] 1)"

text \<open>
  The files of a host: a path names no file, or a file that the user may read or may not.
  \<open>os.Stat\<close> looks the name up in its directory and needs no permission on the file
  itself, so it succeeds on every file that exists; opening the file to read it fails
  on a file without read permission.
\<close>

datatype access = Readable | Unreadable

definition statFile :: "(string \<Rightarrow> access option) \<Rightarrow> string \<Rightarrow> goerr option" where
  "statFile files name =
     (case files name of
        None \<Rightarrow> Some (ErrorS (''stat '' @ name @ '': no such file or directory''))
      | Some a \<Rightarrow> None)"

definition openFile :: "(string \<Rightarrow> access option) \<Rightarrow> string \<Rightarrow> goerr option" where
  "openFile files name =
     (case files name of
        None \<Rightarrow> Some (ErrorS (''open '' @ name @ '': no such file or directory''))
      | Some Unreadable \<Rightarrow> Some (ErrorS (''open '' @ name @ '': permission denied''))
      | Some Readable \<Rightarrow> None)"

text \<open>
  A host without override and secret mount whose directory \<open>~/.config/github-apps\<close> holds
  one key, a file that exists and that the user may not read (mode 000, or mode 600 of
  another owner).
\<close>

definition lockedKey :: string where
  "lockedKey = ''/home/u/.config/github-apps/wiki-diagram-publisher.2024-06-01.private-key.pem''"

definition lockedFiles :: "string \<Rightarrow> access option" where
  "lockedFiles name = (if name = lockedKey then Some Unreadable else None)"

definition hostLockedKey :: "nat host" where
  "hostLockedKey =
     scripted (\<lambda>argv w. (([], None), w)) (\<lambda>k. []) (statFile lockedFiles)
       (globDir ''/home/u/.config/github-apps'' [''wiki-diagram-publisher.2024-06-01.private-key.pem''])"

text \<open>The trace after the glob of the local search of \<open>verifyGitHubAppKey\<close>, run from \<open>s\<close>.\<close>

definition searched :: "'w host \<Rightarrow> 'w st \<Rightarrow> event list" where
  "searched h s =
     trace s @
       [Getenv ''WIKI_APP_PRIVATE_KEY_PATH'', Stat secretPath, UserHomeDir,
        Print (magnifier @ '' Searching for key files in: '' @
               Join [userHomeDir h (world s), ''.config'', ''github-apps''] @ nl),
        Glob (Join [Join [userHomeDir h (world s), ''.config'', ''github-apps''],
                    ''wiki-diagram-publisher*.pem''])]"

section \<open>Properties\<close>

lemmas call_defs = emit_def Printf_def Println_def command_def shRunV_def cmdRun_def
  execLookPath_def osStat_def osGetenv_def osUserHomeDir_def filepathGlob_def

lemmas eval_defs = Fields_def spaceWidth_def spaceRunes_def HasPrefix_def TrimPrefix_def
  TrimSpace_def index_def

lemma commands_append [simp]: "commands (xs @ ys) = commands xs @ commands ys"
  by (induction xs rule: commands.induct) simp_all

lemma installs_append [simp]: "installs (xs @ ys) = installs xs @ installs ys"
  by (simp add: installs_def)

subsection \<open>The Go toolchain\<close>

lemma Go_Verify_fst:
  "fst (Go_Verify h s) = fst (verifyGoVersion h (Println ''Verifying Go installation...'' s))"
  by (auto simp: Go_Verify_def split: prod.splits result.splits)

text \<open>
  C10.  \<open>verifyGoVersion\<close> (and so \<open>Go.Verify\<close>) never panics, whatever \<open>go version\<close>
  prints; when it prints fewer than three fields the result is the error
  \<open>unexpected output from 'go version': \<close> followed by the output.
\<close>

theorem verifyGoVersion_short_output:
  "(\<forall>p. fst (verifyGoVersion h s) \<noteq> Panic p \<and> fst (Go_Verify h s) \<noteq> Panic p) \<and>
   (proc h Output [''go'', ''version''] (world s) = ((out, None), w') \<longrightarrow>
    length (Fields out) < 3 \<longrightarrow>
      fst (verifyGoVersion h s) =
        Err (ErrorS (''unexpected output from '' @ quote @ ''go version'' @ quote @ '': '' @ out)) \<and>
      fst (Go_Verify h s) =
        Err (ErrorS (''unexpected output from '' @ quote @ ''go version'' @ quote @ '': '' @ out)))"
  by (auto simp: Go_Verify_fst verifyGoVersion_def call_defs index_def Let_def
           split: prod.splits option.splits)

theorem verifyGoVersion_short_output_witness:
  "Fields (''go version'' @ nl) = [''go'', ''version''] \<and>
   fst (Go_Verify (goHost (''go version'' @ nl)) start) =
     Err (ErrorS (''unexpected output from '' @ quote @ ''go version'' @ quote @ '': go version'' @ nl)) \<and>
   fst (Go_Verify (goHost []) start) =
     Err (ErrorS (''unexpected output from '' @ quote @ ''go version'' @ quote @ '': ''))"
proof -
  have f: "Fields (''go version'' @ nl) = [''go'', ''version'']"
    by (simp add: eval_defs nl_def)
  have p: "proc (goHost out) Output [''go'', ''version''] (world start) = ((out, None), 0)" for out
    by (simp add: goHost_def scripted_def start_def)
  have "fst (Go_Verify (goHost (''go version'' @ nl)) start) =
     Err (ErrorS (''unexpected output from '' @ quote @ ''go version'' @ quote @ '': '' @ (''go version'' @ nl)))"
    using verifyGoVersion_short_output [of "goHost (''go version'' @ nl)" start "''go version'' @ nl" 0] p f
    by simp
  moreover have "fst (Go_Verify (goHost []) start) =
     Err (ErrorS (''unexpected output from '' @ quote @ ''go version'' @ quote @ '': '' @ []))"
    using verifyGoVersion_short_output [of "goHost []" start "[]" 0] p
    by (simp add: eval_defs)
  ultimately show ?thesis using f by simp
qed

lemma Contains_refl: "Contains s s"
  by (cases s) (simp_all add: HasPrefix_def)

lemma verifyGoVersion_result:
  "proc h Output [''go'', ''version''] (world s) = ((out, None), w1) \<Longrightarrow>
   index (Fields out) 2 = Some f2 \<Longrightarrow>
   fst (verifyGoVersion h s) =
     (if TrimPrefix f2 ''go'' = TargetGoVersion then Ok
      else Err (ErrorS (''Go version mismatch: found '' @ TrimPrefix f2 ''go'' @ '', expected '' @
                        TargetGoVersion)))"
  by (auto simp: verifyGoVersion_def call_defs index_def Let_def split: prod.splits option.splits)

text \<open>
  C7.  When \<open>go version\<close> reports the pinned version, \<open>verifyGoVersion\<close> and \<open>Go.Verify\<close>
  return \<open>nil\<close> whatever the fetch of the latest version does; when the fetch fails, all
  that happens after it is the line \<open>Skipping Go version update check (network unavailable
  or offline).\<close>
\<close>

theorem drift_check_failure_keeps_verify:
  assumes go: "proc h Output [''go'', ''version''] (world s) = ((out, None), w1)"
    and third: "index (Fields out) 2 = Some f2"
    and pinned: "TrimPrefix f2 ''go'' = TargetGoVersion"
  shows "fst (verifyGoVersion h s) = Ok \<and> fst (Go_Verify h s) = Ok \<and>
    (\<forall>out' e w2.
       proc h Output [''curl'', ''-s'', ''https://go.dev/VERSION?m=text''] w1 = ((out', Some e), w2) \<longrightarrow>
       snd (verifyGoVersion h s) =
         \<lparr>world = w2,
          trace = trace s @
            [Print (''Target Go version: '' @ TargetGoVersion @ nl),
             Exec Output [''go'', ''version''],
             Exec Output [''curl'', ''-s'', ''https://go.dev/VERSION?m=text''],
             Print (''Skipping Go version update check (network unavailable or offline).'' @ nl)]\<rparr>)"
proof (intro conjI allI impI)
  show "fst (verifyGoVersion h s) = Ok"
    using verifyGoVersion_result [OF go third] pinned by simp
  show "fst (Go_Verify h s) = Ok"
    using verifyGoVersion_result [of h "Println ''Verifying Go installation...'' s" out w1 f2]
      go third pinned
    by (simp add: Go_Verify_fst call_defs)
next
  fix out' e w2
  assume "proc h Output [''curl'', ''-s'', ''https://go.dev/VERSION?m=text''] w1 = ((out', Some e), w2)"
  with go third pinned show "snd (verifyGoVersion h s) =
         \<lparr>world = w2,
          trace = trace s @
            [Print (''Target Go version: '' @ TargetGoVersion @ nl),
             Exec Output [''go'', ''version''],
             Exec Output [''curl'', ''-s'', ''https://go.dev/VERSION?m=text''],
             Print (''Skipping Go version update check (network unavailable or offline).'' @ nl)]\<rparr>"
    by (simp add: verifyGoVersion_def checkGoVersionLatest_def call_defs index_def Let_def
             split: if_splits)
qed

lemma Fields_go_version:
  "Fields (''go version go1.25.3 linux/amd64'' @ nl) = [''go'', ''version'', ''go1.25.3'', ''linux/amd64'']"
  by (simp add: eval_defs nl_def)

theorem drift_check_failure_keeps_verify_witness:
  "proc (goHost (''go version go1.25.3 linux/amd64'' @ nl)) Output
      [''curl'', ''-s'', ''https://go.dev/VERSION?m=text''] 0 = (([], Some exitStatus1), 0) \<and>
   Go_Verify (goHost (''go version go1.25.3 linux/amd64'' @ nl)) start =
     (Ok, \<lparr>world = 0,
           trace =
             [Print (''Verifying Go installation...'' @ nl),
              Print (''Target Go version: 1.25.3'' @ nl),
              Exec Output [''go'', ''version''],
              Exec Output [''curl'', ''-s'', ''https://go.dev/VERSION?m=text''],
              Print (''Skipping Go version update check (network unavailable or offline).'' @ nl),
              Print (''Go toolchain is correctly installed and verified.'' @ nl)]\<rparr>)"
proof -
  let ?h = "goHost (''go version go1.25.3 linux/amd64'' @ nl)"
  let ?s = "Println ''Verifying Go installation...'' start"
  have go: "proc ?h Output [''go'', ''version''] (world ?s) =
      ((''go version go1.25.3 linux/amd64'' @ nl, None), 0)"
    by (simp add: goHost_def scripted_def start_def call_defs)
  have third: "index (Fields (''go version go1.25.3 linux/amd64'' @ nl)) 2 = Some ''go1.25.3''"
    using Fields_go_version by (simp add: index_def)
  have pinned: "TrimPrefix ''go1.25.3'' ''go'' = TargetGoVersion"
    by (simp add: TrimPrefix_def HasPrefix_def TargetGoVersion_def)
  have curl: "proc ?h Output [''curl'', ''-s'', ''https://go.dev/VERSION?m=text''] 0 =
      (([], Some exitStatus1), 0)"
    by (simp add: goHost_def scripted_def)
  from drift_check_failure_keeps_verify [OF go third pinned] curl
  have "fst (verifyGoVersion ?h ?s) = Ok" and "snd (verifyGoVersion ?h ?s) =
         \<lparr>world = 0,
          trace = trace ?s @
            [Print (''Target Go version: '' @ TargetGoVersion @ nl),
             Exec Output [''go'', ''version''],
             Exec Output [''curl'', ''-s'', ''https://go.dev/VERSION?m=text''],
             Print (''Skipping Go version update check (network unavailable or offline).'' @ nl)]\<rparr>"
    by blast+
  then have "verifyGoVersion ?h ?s = (Ok, \<lparr>world = 0,
          trace = trace ?s @
            [Print (''Target Go version: '' @ TargetGoVersion @ nl),
             Exec Output [''go'', ''version''],
             Exec Output [''curl'', ''-s'', ''https://go.dev/VERSION?m=text''],
             Print (''Skipping Go version update check (network unavailable or offline).'' @ nl)]\<rparr>)"
    by (simp add: prod_eq_iff)
  then show ?thesis using curl
    by (simp add: Go_Verify_def call_defs start_def TargetGoVersion_def)
qed

subsection \<open>Version pins\<close>

lemma Mermaid_Verify_result:
  "proc h CombinedOutput [''mmdc'', ''--version''] (world s) = ((out, None), w1) \<Longrightarrow>
   fst (Mermaid_Verify h s) =
     (if Contains (TrimSpace out) TargetMermaidVersion then Ok
      else Err (ErrorS (cross_mark @ '' Mermaid CLI version mismatch: found '' @ quote @
                        TrimSpace out @ quote @ '', expected '' @ TargetMermaidVersion)))"
  by (simp add: Mermaid_Verify_def call_defs Let_def)

text \<open>
  C2, as stated, fails for the Mermaid CLI: \<open>Mermaid.Verify\<close> looks for the pinned version
  inside the reported one (\<open>strings.Contains\<close>), so the report \<open>10.9.0-beta.1\<close>, which is
  not \<open>10.9.0\<close>, verifies.
\<close>

theorem mermaid_verify_accepts_other_version:
  "TrimSpace (''10.9.0-beta.1'' @ nl) = ''10.9.0-beta.1'' \<and>
   ''10.9.0-beta.1'' \<noteq> TargetMermaidVersion \<and>
   fst (Mermaid_Verify (mermaidHost (''10.9.0-beta.1'' @ nl) ''none'') start) = Ok"
proof -
  have t: "TrimSpace (''10.9.0-beta.1'' @ nl) = ''10.9.0-beta.1''"
    by (simp add: eval_defs nl_def)
  have c: "Contains ''10.9.0-beta.1'' TargetMermaidVersion"
    by (simp add: HasPrefix_def TargetMermaidVersion_def)
  have p: "proc (mermaidHost (''10.9.0-beta.1'' @ nl) ''none'') CombinedOutput [''mmdc'', ''--version'']
             (world start) = ((''10.9.0-beta.1'' @ nl, None), 0)"
    by (simp add: mermaidHost_def scripted_def start_def)
  show ?thesis
    using Mermaid_Verify_result [OF p] t c by (simp add: TargetMermaidVersion_def)
qed

text \<open>
  C2, amended.  \<open>Go.Verify\<close> compares the third field of the output of \<open>go version\<close>,
  without its prefix \<open>go\<close>, with the pin: it returns \<open>nil\<close> when they are equal and
  otherwise the error \<open>Go version mismatch\<close> with the version found and the pin.
  \<open>Mermaid.Verify\<close> returns \<open>nil\<close> when the trimmed output of \<open>mmdc --version\<close> contains the
  pin (so when it is the pin), and otherwise the error \<open>Mermaid CLI version mismatch\<close> with
  the trimmed output and the pin.
\<close>

theorem verify_checks_version_pin:
  "(proc h Output [''go'', ''version''] (world s) = ((out, None), w1) \<longrightarrow>
    index (Fields out) 2 = Some f2 \<longrightarrow>
      fst (Go_Verify h s) =
        (if TrimPrefix f2 ''go'' = TargetGoVersion then Ok
         else Err (ErrorS (''Go version mismatch: found '' @ TrimPrefix f2 ''go'' @ '', expected '' @
                           TargetGoVersion)))) \<and>
   (proc h CombinedOutput [''mmdc'', ''--version''] (world s) = ((out', None), w2) \<longrightarrow>
      fst (Mermaid_Verify h s) =
        (if Contains (TrimSpace out') TargetMermaidVersion then Ok
         else Err (ErrorS (cross_mark @ '' Mermaid CLI version mismatch: found '' @ quote @
                           TrimSpace out' @ quote @ '', expected '' @ TargetMermaidVersion))) \<and>
      (TrimSpace out' = TargetMermaidVersion \<longrightarrow> fst (Mermaid_Verify h s) = Ok))"
proof (intro conjI impI)
  assume "proc h Output [''go'', ''version''] (world s) = ((out, None), w1)"
    and "index (Fields out) 2 = Some f2"
  then show "fst (Go_Verify h s) =
        (if TrimPrefix f2 ''go'' = TargetGoVersion then Ok
         else Err (ErrorS (''Go version mismatch: found '' @ TrimPrefix f2 ''go'' @ '', expected '' @
                           TargetGoVersion)))"
    using verifyGoVersion_result [of h "Println ''Verifying Go installation...'' s" out w1 f2]
    by (simp add: Go_Verify_fst call_defs)
next
  assume p: "proc h CombinedOutput [''mmdc'', ''--version''] (world s) = ((out', None), w2)"
  show "fst (Mermaid_Verify h s) =
        (if Contains (TrimSpace out') TargetMermaidVersion then Ok
         else Err (ErrorS (cross_mark @ '' Mermaid CLI version mismatch: found '' @ quote @
                           TrimSpace out' @ quote @ '', expected '' @ TargetMermaidVersion)))"
    by (rule Mermaid_Verify_result [OF p])
  assume "TrimSpace out' = TargetMermaidVersion"
  then show "fst (Mermaid_Verify h s) = Ok"
    using Mermaid_Verify_result [OF p] by (simp add: Contains_refl)
qed

lemma Fields_go_old:
  "Fields (''go version go1.24.0 linux/amd64'' @ nl) = [''go'', ''version'', ''go1.24.0'', ''linux/amd64'']"
  by (simp add: eval_defs nl_def)

lemma TrimSpace_mmdc: "TrimSpace (''10.9.0'' @ nl) = ''10.9.0''"
  by (simp add: eval_defs nl_def)

lemma TrimSpace_mmdc_old: "TrimSpace (''10.8.0'' @ nl) = ''10.8.0''"
  by (simp add: eval_defs nl_def)

theorem verify_checks_version_pin_witness:
  "fst (Go_Verify (goHost (''go version go1.25.3 linux/amd64'' @ nl)) start) = Ok \<and>
   fst (Go_Verify (goHost (''go version go1.24.0 linux/amd64'' @ nl)) start) =
     Err (ErrorS ''Go version mismatch: found 1.24.0, expected 1.25.3'') \<and>
   fst (Mermaid_Verify (mermaidHost (''10.9.0'' @ nl) ''none'') start) = Ok \<and>
   fst (Mermaid_Verify (mermaidHost (''10.8.0'' @ nl) ''none'') start) =
     Err (ErrorS (cross_mark @ '' Mermaid CLI version mismatch: found '' @ quote @ ''10.8.0'' @ quote @
                  '', expected 10.9.0''))"
proof -
  have go: "proc (goHost out) Output [''go'', ''version''] (world start) = ((out, None), 0)" for out
    by (simp add: goHost_def scripted_def start_def)
  have mmdc: "proc (mermaidHost out ''none'') CombinedOutput [''mmdc'', ''--version''] (world start) =
      ((out, None), 0)" for out
    by (simp add: mermaidHost_def scripted_def start_def)
  have new: "index (Fields (''go version go1.25.3 linux/amd64'' @ nl)) 2 = Some ''go1.25.3''"
    using Fields_go_version by (simp add: index_def)
  have old: "index (Fields (''go version go1.24.0 linux/amd64'' @ nl)) 2 = Some ''go1.24.0''"
    using Fields_go_old by (simp add: index_def)
  have 1: "fst (Go_Verify (goHost (''go version go1.25.3 linux/amd64'' @ nl)) start) = Ok"
    using verify_checks_version_pin
      [of "goHost (''go version go1.25.3 linux/amd64'' @ nl)" start
          "''go version go1.25.3 linux/amd64'' @ nl" 0 "''go1.25.3''"] go new
    by (simp add: TrimPrefix_def HasPrefix_def TargetGoVersion_def)
  have 2: "fst (Go_Verify (goHost (''go version go1.24.0 linux/amd64'' @ nl)) start) =
     Err (ErrorS ''Go version mismatch: found 1.24.0, expected 1.25.3'')"
    using verify_checks_version_pin
      [of "goHost (''go version go1.24.0 linux/amd64'' @ nl)" start
          "''go version go1.24.0 linux/amd64'' @ nl" 0 "''go1.24.0''"] go old
    by (simp add: TrimPrefix_def HasPrefix_def TargetGoVersion_def)
  have 3: "fst (Mermaid_Verify (mermaidHost (''10.9.0'' @ nl) ''none'') start) = Ok"
    using verify_checks_version_pin
      [of "mermaidHost (''10.9.0'' @ nl) ''none''" start _ _ _ "''10.9.0'' @ nl" 0] mmdc TrimSpace_mmdc
    by (simp add: TargetMermaidVersion_def HasPrefix_def)
  have 4: "fst (Mermaid_Verify (mermaidHost (''10.8.0'' @ nl) ''none'') start) =
     Err (ErrorS (cross_mark @ '' Mermaid CLI version mismatch: found '' @ quote @ ''10.8.0'' @ quote @
                  '', expected 10.9.0''))"
    using verify_checks_version_pin
      [of "mermaidHost (''10.8.0'' @ nl) ''none''" start _ _ _ "''10.8.0'' @ nl" 0] mmdc TrimSpace_mmdc_old
    by (simp add: TargetMermaidVersion_def HasPrefix_def)
  from 1 2 3 4 show ?thesis by blast
qed

subsection \<open>Resolving the GitHub App private key\<close>

lemma verifyGitHubAppKey_override:
  assumes "getenv h (world s) ''WIKI_APP_PRIVATE_KEY_PATH'' = keyPath" and "keyPath \<noteq> []"
  shows "verifyGitHubAppKey h s =
    (case stat h (world s) keyPath of
       None \<Rightarrow>
         (Ok, s\<lparr>trace := trace s @
            [Getenv ''WIKI_APP_PRIVATE_KEY_PATH'', Stat keyPath,
             Print (package @ '' Using GitHub App key from environment variable: '' @ keyPath @ nl)]\<rparr>)
     | Some err \<Rightarrow>
         (Err (Wrapf (''GitHub App key missing at '' @ keyPath @ '': '') err),
          s\<lparr>trace := trace s @ [Getenv ''WIKI_APP_PRIVATE_KEY_PATH'', Stat keyPath]\<rparr>))"
  using assms by (simp add: verifyGitHubAppKey_def call_defs split: option.splits)


lemma verifyGitHubAppKey_local:
  assumes "getenv h (world s) ''WIKI_APP_PRIVATE_KEY_PATH'' = []"
    and "stat h (world s) secretPath = Some e0"
    and "glob h (world s) (Join [Join [userHomeDir h (world s), ''.config'', ''github-apps''],
                                 ''wiki-diagram-publisher*.pem'']) = (matches, gerr)"
  shows "verifyGitHubAppKey h s =
    (case gerr of
       Some err \<Rightarrow>
         (Err (Wrapf (''error searching for GitHub App key in '' @
                      Join [userHomeDir h (world s), ''.config'', ''github-apps''] @ '': '') err),
          s\<lparr>trace := searched h s\<rparr>)
     | None \<Rightarrow>
         if matches = [] then
           (Err (ErrorS (''no GitHub App key found '' @ em_dash @ '' expected one of:'' @ nl @
                         ''  - env var: WIKI_APP_PRIVATE_KEY_PATH'' @ nl @
                         ''  - Docker secret: '' @ secretPath @ nl @
                         ''  - local file: ~/.config/github-apps/wiki-diagram-publisher*.pem'')),
            s\<lparr>trace := searched h s\<rparr>)
         else
           (case stat h (world s) (last matches) of
              Some err \<Rightarrow>
                (Err (Wrapf ''GitHub App key found but unreadable: '' err),
                 s\<lparr>trace := searched h s @ [Stat (last matches)]\<rparr>)
            | None \<Rightarrow>
                (Ok, s\<lparr>trace := searched h s @
                   [Stat (last matches),
                    Print (computer @ '' Using local GitHub App key: '' @ last matches @ nl)]\<rparr>)))"
  using assms
  by (simp add: verifyGitHubAppKey_def call_defs searched_def index_def last_conv_nth Let_def
           split: option.splits)


lemma sorted_le_last: "sorted xs \<Longrightarrow> x \<in> set xs \<Longrightarrow> x \<le> last xs"
  by (induction xs) auto



text \<open>
  C4.  With the override set and \<open>os.Stat\<close> of its path failing, the resolver returns at
  once the error \<open>GitHub App key missing at\<close> the path, which wraps the error of
  \<open>os.Stat\<close>; it has read the variable and looked at that path, and at nothing else.
\<close>

theorem broken_override_fails_at_once:
  assumes "getenv h (world s) ''WIKI_APP_PRIVATE_KEY_PATH'' = keyPath" and "keyPath \<noteq> []"
    and "stat h (world s) keyPath = Some err"
  shows "verifyGitHubAppKey h s =
    (Err (Wrapf (''GitHub App key missing at '' @ keyPath @ '': '') err),
     s\<lparr>trace := trace s @ [Getenv ''WIKI_APP_PRIVATE_KEY_PATH'', Stat keyPath]\<rparr>)"
  using verifyGitHubAppKey_override [OF assms(1,2)] assms(3) by simp

theorem broken_override_fails_at_once_witness:
  "stat (keyHost ''/keys/gone.pem'' [secretPath, ''key.2024-06-01.pem''] [''key.2024-06-01.pem'']) 0
     secretPath = None \<and>
   verifyGitHubAppKey
     (keyHost ''/keys/gone.pem'' [secretPath, ''key.2024-06-01.pem''] [''key.2024-06-01.pem'']) start =
     (Err (Wrapf ''GitHub App key missing at /keys/gone.pem: '' noSuchFile),
      \<lparr>world = 0, trace = [Getenv ''WIKI_APP_PRIVATE_KEY_PATH'', Stat ''/keys/gone.pem'']\<rparr>)"
  using broken_override_fails_at_once
    [of "keyHost ''/keys/gone.pem'' [secretPath, ''key.2024-06-01.pem''] [''key.2024-06-01.pem'']"
        start "''/keys/gone.pem''" noSuchFile]
  by (simp add: keyHost_def scripted_def start_def secretPath_def)


text \<open>
  The local search (override unset, mount missing, glob without error), on every host:
  with no match the result is the error \<open>no GitHub App key found\<close>, whose message names the
  variable, the secret mount and the local pattern; with matches, the result is \<open>nil\<close>
  exactly when \<open>os.Stat\<close> of the selected match succeeds, and when it fails the result
  is the error \<open>GitHub App key found but unreadable\<close> wrapping the error of \<open>os.Stat\<close>.
\<close>

lemma local_search_result:
  assumes "getenv h (world s) ''WIKI_APP_PRIVATE_KEY_PATH'' = []"
    and "stat h (world s) secretPath = Some e0"
    and "glob h (world s) (Join [Join [userHomeDir h (world s), ''.config'', ''github-apps''],
                                 ''wiki-diagram-publisher*.pem'']) = (matches, None)"
  shows "(fst (verifyGitHubAppKey h s) = Ok \<longleftrightarrow>
            matches \<noteq> [] \<and> stat h (world s) (last matches) = None) \<and>
         (fst (verifyGitHubAppKey h s) =
            Err (ErrorS (''no GitHub App key found '' @ em_dash @ '' expected one of:'' @ nl @
                         ''  - env var: '' @ ''WIKI_APP_PRIVATE_KEY_PATH'' @ nl @
                         ''  - Docker secret: '' @ ''/run/secrets/wiki_diagram_app_key'' @ nl @
                         ''  - local file: '' @ ''~/.config/github-apps/wiki-diagram-publisher*.pem''))
          \<longleftrightarrow> matches = []) \<and>
         (\<forall>err. matches \<noteq> [] \<and> stat h (world s) (last matches) = Some err \<longrightarrow>
            fst (verifyGitHubAppKey h s) = Err (Wrapf ''GitHub App key found but unreadable: '' err))"
  using verifyGitHubAppKey_local [OF assms]
  by (auto simp: secretPath_def split: option.splits)

lemma globDir_locked:
  "globDir ''/home/u/.config/github-apps'' [''wiki-diagram-publisher.2024-06-01.private-key.pem''] =
     [''/home/u/.config/github-apps/wiki-diagram-publisher.2024-06-01.private-key.pem'']"
  by code_simp

text \<open>
  C9 asks that a match that exists and cannot be read gives the error \<open>found but
  unreadable\<close>, and that the resolver ends in Found only on a readable key.  The code
  decides it with \<open>os.Stat\<close>, and that succeeds on every file that exists.  On the host
  whose only key exists and may not be read (opening it fails with \<open>permission denied\<close>),
  the resolver returns \<open>nil\<close> and reports the key as the one in use; the error
  \<open>GitHub App key found but unreadable\<close> is not returned.
\<close>

theorem unreadable_key_is_reported_found:
  "lockedFiles lockedKey = Some Unreadable \<and>
   openFile lockedFiles lockedKey = Some (ErrorS (''open '' @ lockedKey @ '': permission denied'')) \<and>
   stat hostLockedKey 0 lockedKey = None \<and>
   verifyGitHubAppKey hostLockedKey start =
     (Ok, \<lparr>world = 0, trace =
        [Getenv ''WIKI_APP_PRIVATE_KEY_PATH'', Stat ''/run/secrets/wiki_diagram_app_key'', UserHomeDir,
         Print (magnifier @ '' Searching for key files in: /home/u/.config/github-apps'' @ nl),
         Glob ''/home/u/.config/github-apps/wiki-diagram-publisher*.pem'',
         Stat lockedKey,
         Print (computer @ '' Using local GitHub App key: '' @ lockedKey @ nl)]\<rparr>)"
proof -
  have g: "glob hostLockedKey (world start)
      (Join [Join [userHomeDir hostLockedKey (world start), ''.config'', ''github-apps''],
             ''wiki-diagram-publisher*.pem'']) = ([lockedKey], None)"
    using globDir_locked by (simp add: hostLockedKey_def scripted_def lockedKey_def)
  have e: "getenv hostLockedKey (world start) ''WIKI_APP_PRIVATE_KEY_PATH'' = []"
    by (simp add: hostLockedKey_def scripted_def)
  have m: "stat hostLockedKey (world start) secretPath =
      Some (ErrorS (''stat '' @ secretPath @ '': no such file or directory''))"
    by (simp add: hostLockedKey_def scripted_def statFile_def lockedFiles_def lockedKey_def
          secretPath_def)
  have st: "stat hostLockedKey w lockedKey = None" for w
    by (simp add: hostLockedKey_def scripted_def statFile_def lockedFiles_def)
  have dir: "Join [userHomeDir hostLockedKey w, ''.config'', ''github-apps''] =
      ''/home/u/.config/github-apps''" for w
    by (simp add: hostLockedKey_def scripted_def Join_def Clean_def Let_def)
  have pat: "Join [''/home/u/.config/github-apps'', ''wiki-diagram-publisher*.pem''] =
      ''/home/u/.config/github-apps/wiki-diagram-publisher*.pem''"
    by (simp add: Join_def Clean_def Let_def)
  have run: "verifyGitHubAppKey hostLockedKey start =
     (Ok, \<lparr>world = 0, trace =
        [Getenv ''WIKI_APP_PRIVATE_KEY_PATH'', Stat ''/run/secrets/wiki_diagram_app_key'', UserHomeDir,
         Print (magnifier @ '' Searching for key files in: /home/u/.config/github-apps'' @ nl),
         Glob ''/home/u/.config/github-apps/wiki-diagram-publisher*.pem'',
         Stat lockedKey,
         Print (computer @ '' Using local GitHub App key: '' @ lockedKey @ nl)]\<rparr>)"
    using verifyGitHubAppKey_local [OF e m g] st [of "world start"] g
    by (simp add: searched_def dir pat start_def secretPath_def)
  have "openFile lockedFiles lockedKey = Some (ErrorS (''open '' @ lockedKey @ '': permission denied''))"
    by (simp add: openFile_def lockedFiles_def)
  with run st [of 0] show ?thesis
    by (simp add: lockedFiles_def)
qed

lemma Docker_Secrets_local:
  assumes "stat h (world s) swarmSecretPath = Some e0"
    and "glob h (world s) (Join [Join [userHomeDir h (world s), ''.config'', ''github-apps''],
                                 ''wiki-diagram-publisher*.pem'']) = (matches, None)"
    and "matches \<noteq> []"
    and "proc h Output [''docker'', ''info'', ''--format'', ''{{.Swarm.ControlAvailable}}''] (world s) =
           ((out, e1), w1)"
  shows "Docker_Secrets h s =
    (let t1 = trace s @
           [Print (wrench @ '' Ensuring GitHub App private key is available...'' @ nl),
            Stat swarmSecretPath, UserHomeDir,
            Glob (Join [Join [userHomeDir h (world s), ''.config'', ''github-apps''],
                        ''wiki-diagram-publisher*.pem'']),
            Print (package @ '' Found local GitHub App key: '' @ Base (last matches) @ nl),
            Exec Output [''docker'', ''info'', ''--format'', ''{{.Swarm.ControlAvailable}}'']]
     in
     if TrimSpace out = ''true'' then
       (case proc h ShRunV [''docker'', ''secret'', ''create'', secretName, last matches] w1 of
          ((out2, None), w2) \<Rightarrow>
            (Ok, \<lparr>world = w2, trace = t1 @
               [Print (honeybee @ '' Swarm mode detected '' @ em_dash @ '' creating Docker secret...'' @ nl),
                Exec ShRunV [''docker'', ''secret'', ''create'', secretName, last matches],
                Print (check_mark @ '' Docker secret created successfully.'' @ nl)]\<rparr>)
        | ((out2, Some err), w2) \<Rightarrow>
            if Contains (errorString err) ''already exists'' then
              (Ok, \<lparr>world = w2, trace = t1 @
                 [Print (honeybee @ '' Swarm mode detected '' @ em_dash @ '' creating Docker secret...'' @ nl),
                  Exec ShRunV [''docker'', ''secret'', ''create'', secretName, last matches],
                  Print (information @ ''  Docker secret already exists, skipping creation.'' @ nl)]\<rparr>)
            else
              (Err (Wrapf ''failed to create Docker secret: '' err),
               \<lparr>world = w2, trace = t1 @
                 [Print (honeybee @ '' Swarm mode detected '' @ em_dash @ '' creating Docker secret...'' @ nl),
                  Exec ShRunV [''docker'', ''secret'', ''create'', secretName, last matches]]\<rparr>))
     else
       (Ok, \<lparr>world = w1, trace = t1 @
          [Print (computer @ '' Running in non-Swarm mode '' @ em_dash @
                  '' using local key directly for verification.'' @ nl)]\<rparr>))"
  using assms
  by (simp add: Docker_Secrets_def call_defs index_def last_conv_nth Let_def
           split: option.splits prod.splits)


lemma globDir_example:
  "globDir ''/home/u/.config/github-apps''
     [''wiki-diagram-publisher.2024-06-01.private-key.pem'', ''notes.txt'',
      ''wiki-diagram-publisher.2024-01-01.private-key.pem''] =
   [''/home/u/.config/github-apps/wiki-diagram-publisher.2024-01-01.private-key.pem'',
    ''/home/u/.config/github-apps/wiki-diagram-publisher.2024-06-01.private-key.pem'']"
  by code_simp

lemma secretPath_eq: "swarmSecretPath = secretPath"
  by (simp add: swarmSecretPath_def secretName_def secretPath_def)

text \<open>
  C8.  \<open>filepath.Glob\<close> lists the matching entries of the directory in ascending order of
  name, so its matches are sorted.  Of sorted matches the resolver takes the last one,
  which is the greatest in the lexicographic order of bytes: in the local search it is
  the only match it looks at with \<open>os.Stat\<close> and the key it reports; \<open>Docker.Secrets\<close>
  takes the same one, reports its base name and hands it to \<open>docker secret create\<close>.
\<close>

theorem lexicographically_last_match_selected:
  assumes "glob h (world s) (Join [Join [userHomeDir h (world s), ''.config'', ''github-apps''],
                                   ''wiki-diagram-publisher*.pem'']) = (matches, None)"
    and "matches \<noteq> []" and "sorted matches"
    and "stat h (world s) secretPath = Some e0"
  shows "(\<forall>m\<in>set matches. m \<le> last matches) \<and>
    (getenv h (world s) ''WIKI_APP_PRIVATE_KEY_PATH'' = [] \<longrightarrow>
       (\<forall>m. Stat m \<in> set (trace (snd (verifyGitHubAppKey h (s\<lparr>trace := []\<rparr>)))) \<longleftrightarrow>
             m = secretPath \<or> m = last matches) \<and>
       (stat h (world s) (last matches) = None \<longrightarrow>
          fst (verifyGitHubAppKey h s) = Ok \<and>
          last (trace (snd (verifyGitHubAppKey h s))) =
            Print (computer @ '' Using local GitHub App key: '' @ last matches @ nl))) \<and>
    Print (package @ '' Found local GitHub App key: '' @ Base (last matches) @ nl)
      \<in> set (trace (snd (Docker_Secrets h s))) \<and>
    (TrimSpace (fst (fst (proc h Output [''docker'', ''info'', ''--format'',
                                         ''{{.Swarm.ControlAvailable}}''] (world s)))) = ''true'' \<longrightarrow>
       installs (trace (snd (Docker_Secrets h (s\<lparr>trace := []\<rparr>)))) =
         [[''docker'', ''secret'', ''create'', ''wiki_diagram_app_key'', last matches]])"
proof (intro conjI impI ballI allI)
  fix m assume "m \<in> set matches"
  with assms(3) show "m \<le> last matches" by (rule sorted_le_last)
next
  fix m
  assume env: "getenv h (world s) ''WIKI_APP_PRIVATE_KEY_PATH'' = []"
  show "Stat m \<in> set (trace (snd (verifyGitHubAppKey h (s\<lparr>trace := []\<rparr>)))) \<longleftrightarrow>
          m = secretPath \<or> m = last matches"
    using verifyGitHubAppKey_local [of h "s\<lparr>trace := []\<rparr>" e0 matches None] env assms
    by (auto simp: searched_def split: option.splits)
next
  assume env: "getenv h (world s) ''WIKI_APP_PRIVATE_KEY_PATH'' = []"
    and ok: "stat h (world s) (last matches) = None"
  show "fst (verifyGitHubAppKey h s) = Ok"
    using verifyGitHubAppKey_local [OF env assms(4) assms(1)] assms(2) ok by simp
  show "last (trace (snd (verifyGitHubAppKey h s))) =
            Print (computer @ '' Using local GitHub App key: '' @ last matches @ nl)"
    using verifyGitHubAppKey_local [OF env assms(4) assms(1)] assms(2) ok by simp
next
  obtain out e1 w1 where d: "proc h Output [''docker'', ''info'', ''--format'',
      ''{{.Swarm.ControlAvailable}}''] (world s) = ((out, e1), w1)"
    by (metis surj_pair)
  show "Print (package @ '' Found local GitHub App key: '' @ Base (last matches) @ nl)
      \<in> set (trace (snd (Docker_Secrets h s)))"
    using Docker_Secrets_local [OF _ assms(1) assms(2) d, of e0] assms(4)
    by (auto simp: secretPath_eq Let_def split: option.splits prod.splits)
next
  assume t: "TrimSpace (fst (fst (proc h Output [''docker'', ''info'', ''--format'',
                                         ''{{.Swarm.ControlAvailable}}''] (world s)))) = ''true''"
  obtain out e1 w1 where d: "proc h Output [''docker'', ''info'', ''--format'',
      ''{{.Swarm.ControlAvailable}}''] (world s) = ((out, e1), w1)"
    by (metis surj_pair)
  show "installs (trace (snd (Docker_Secrets h (s\<lparr>trace := []\<rparr>)))) =
         [[''docker'', ''secret'', ''create'', ''wiki_diagram_app_key'', last matches]]"
    using Docker_Secrets_local [of h "s\<lparr>trace := []\<rparr>" e0 matches out e1 w1] assms d t
    by (auto simp: secretPath_eq Let_def installs_def secretName_def split: option.splits prod.splits)
qed

theorem lexicographically_last_match_selected_witness:
  "sorted [''key.2024-01-01.pem'', ''key.2024-06-01.pem''] \<and>
   ''key.2024-01-01.pem'' \<le> ''key.2024-06-01.pem'' \<and>
   verifyGitHubAppKey
     (keyHost [] [''key.2024-01-01.pem'', ''key.2024-06-01.pem'']
        [''key.2024-01-01.pem'', ''key.2024-06-01.pem'']) start =
     (Ok, \<lparr>world = 0, trace =
        [Getenv ''WIKI_APP_PRIVATE_KEY_PATH'', Stat ''/run/secrets/wiki_diagram_app_key'', UserHomeDir,
         Print (magnifier @ '' Searching for key files in: /home/u/.config/github-apps'' @ nl),
         Glob ''/home/u/.config/github-apps/wiki-diagram-publisher*.pem'',
         Stat ''key.2024-06-01.pem'',
         Print (computer @ '' Using local GitHub App key: key.2024-06-01.pem'' @ nl)]\<rparr>) \<and>
   fst (verifyGitHubAppKey
     (dirHost [''wiki-diagram-publisher.2024-06-01.private-key.pem'', ''notes.txt'',
               ''wiki-diagram-publisher.2024-01-01.private-key.pem'']) start) = Ok \<and>
   last (trace (snd (verifyGitHubAppKey
     (dirHost [''wiki-diagram-publisher.2024-06-01.private-key.pem'', ''notes.txt'',
               ''wiki-diagram-publisher.2024-01-01.private-key.pem'']) start))) =
     Print (computer @ '' Using local GitHub App key: '' @
            ''/home/u/.config/github-apps/wiki-diagram-publisher.2024-06-01.private-key.pem'' @ nl)"
proof -
  let ?names = "[''wiki-diagram-publisher.2024-06-01.private-key.pem'', ''notes.txt'',
               ''wiki-diagram-publisher.2024-01-01.private-key.pem'']"
  let ?ds = "[''/home/u/.config/github-apps/wiki-diagram-publisher.2024-01-01.private-key.pem'',
    ''/home/u/.config/github-apps/wiki-diagram-publisher.2024-06-01.private-key.pem'']"
  let ?d = "dirHost ?names"
  have dg: "glob ?d (world start) (Join [Join [userHomeDir ?d (world start), ''.config'', ''github-apps''],
                                   ''wiki-diagram-publisher*.pem'']) = (?ds, None)"
    using globDir_example by (simp add: dirHost_def scripted_def)
  have dne: "?ds \<noteq> []" by simp
  have dsrt: "sorted ?ds" by simp
  have dm: "stat ?d (world start) secretPath = Some noSuchFile"
    by (simp add: dirHost_def scripted_def secretPath_def Join_def Clean_def Let_def)
  have de: "getenv ?d (world start) ''WIKI_APP_PRIVATE_KEY_PATH'' = []"
    by (simp add: dirHost_def scripted_def)
  have dst: "stat ?d (world start) (last ?ds) = None"
    by (simp add: dirHost_def scripted_def Join_def Clean_def Let_def)
  from lexicographically_last_match_selected [OF dg dne dsrt dm] de dst
  have dir: "fst (verifyGitHubAppKey ?d start) = Ok \<and>
    last (trace (snd (verifyGitHubAppKey ?d start))) =
      Print (computer @ '' Using local GitHub App key: '' @
            ''/home/u/.config/github-apps/wiki-diagram-publisher.2024-06-01.private-key.pem'' @ nl)"
    by simp
  let ?ms = "[''key.2024-01-01.pem'', ''key.2024-06-01.pem'']"
  let ?h = "keyHost [] ?ms ?ms"
  have srt: "sorted ?ms" by simp
  have g: "glob ?h (world start) (Join [Join [userHomeDir ?h (world start), ''.config'', ''github-apps''],
                                   ''wiki-diagram-publisher*.pem'']) = (?ms, None)"
    by (simp add: keyHost_def scripted_def)
  have m: "stat ?h (world start) secretPath = Some noSuchFile"
    by (simp add: keyHost_def scripted_def secretPath_def)
  have ne: "?ms \<noteq> []" by simp
  from lexicographically_last_match_selected [OF g ne srt m]
  have le: "''key.2024-01-01.pem'' \<le> last ?ms"
    and ok: "fst (verifyGitHubAppKey ?h start) = Ok"
    and pr: "last (trace (snd (verifyGitHubAppKey ?h start))) =
            Print (computer @ '' Using local GitHub App key: '' @ last ?ms @ nl)"
    by (simp_all add: keyHost_def scripted_def start_def)
  have run: "verifyGitHubAppKey ?h start =
     (Ok, \<lparr>world = 0, trace =
        [Getenv ''WIKI_APP_PRIVATE_KEY_PATH'', Stat ''/run/secrets/wiki_diagram_app_key'', UserHomeDir,
         Print (magnifier @ '' Searching for key files in: /home/u/.config/github-apps'' @ nl),
         Glob ''/home/u/.config/github-apps/wiki-diagram-publisher*.pem'',
         Stat ''key.2024-06-01.pem'',
         Print (computer @ '' Using local GitHub App key: key.2024-06-01.pem'' @ nl)]\<rparr>)"
    by (simp add: verifyGitHubAppKey_def call_defs keyHost_def scripted_def start_def secretPath_def
          index_def Join_def Clean_def Let_def)
  from srt le ok pr run dir show ?thesis by simp
qed


subsection \<open>Publishing the key as a Docker secret\<close>

text \<open>
  C6 asks that \<open>Docker.Secrets\<close> succeeds when the store answers that the secret exists.
  The code looks for \<open>already exists\<close> in the message of the error of \<open>sh.RunV\<close>, and that
  message is \<open>running "docker secret create ..." failed with exit code 1\<close>: the answer of
  the store went to the terminal.  On the Swarm manager on which the secret exists,
  \<open>Docker.Secrets\<close> returns the error \<open>failed to create Docker secret\<close>.
\<close>

theorem existing_secret_is_reported_as_failure:
  "errorString (runVError ''docker''
       [''secret'', ''create'', ''wiki_diagram_app_key'',
        ''/home/u/.config/github-apps/wiki-diagram-publisher.2024-06-01.private-key.pem''] 1) =
     ''running '' @ dquote @
     ''docker secret create wiki_diagram_app_key '' @
     ''/home/u/.config/github-apps/wiki-diagram-publisher.2024-06-01.private-key.pem'' @ dquote @
     '' failed with exit code 1'' \<and>
   fst (Docker_Secrets hostSecretExists start) =
     Err (Wrapf ''failed to create Docker secret: ''
            (runVError ''docker''
               [''secret'', ''create'', ''wiki_diagram_app_key'',
                ''/home/u/.config/github-apps/wiki-diagram-publisher.2024-06-01.private-key.pem''] 1)) \<and>
   installs (trace (snd (Docker_Secrets hostSecretExists start))) =
     [[''docker'', ''secret'', ''create'', ''wiki_diagram_app_key'',
       ''/home/u/.config/github-apps/wiki-diagram-publisher.2024-06-01.private-key.pem'']]"
proof -
  let ?k = "''/home/u/.config/github-apps/wiki-diagram-publisher.2024-06-01.private-key.pem''"
  let ?err = "runVError ''docker'' [''secret'', ''create'', ''wiki_diagram_app_key'', ?k] 1"
  have msg: "errorString ?err =
     ''running '' @ dquote @ ''docker secret create wiki_diagram_app_key '' @ ?k @ dquote @
     '' failed with exit code 1''"
  proof -
    have "char_of (49 :: nat) = CHR ''1''" by code_simp
    then show ?thesis by (simp add: runVError_def)
  qed
  have a1: "stat hostSecretExists (world start) swarmSecretPath = Some noSuchFile"
    by (simp add: hostSecretExists_def swarmHost_def scripted_def)
  have a2: "glob hostSecretExists (world start)
      (Join [Join [userHomeDir hostSecretExists (world start), ''.config'', ''github-apps''],
             ''wiki-diagram-publisher*.pem'']) = ([?k], None)"
    by (simp add: hostSecretExists_def swarmHost_def scripted_def)
  have a3: "[?k] \<noteq> []" by simp
  have a4: "proc hostSecretExists Output [''docker'', ''info'', ''--format'', ''{{.Swarm.ControlAvailable}}'']
      (world start) = ((''true'' @ nl, None), 0)"
    by (simp add: hostSecretExists_def swarmHost_def scripted_def start_def)
  have a5: "TrimSpace (''true'' @ nl) = ''true''"
    by (simp add: eval_defs nl_def)
  have a6: "proc hostSecretExists ShRunV [''docker'', ''secret'', ''create'', secretName, last [?k]] 0 =
      (([], Some ?err), 0)"
    by (simp add: hostSecretExists_def swarmHost_def scripted_def)
  have n: "\<not> Contains (errorString ?err) ''already exists''"
    unfolding msg by (simp add: HasPrefix_def dquote_def)
  from Docker_Secrets_local [OF a1 a2 a3 a4] a5 a6 n
  have "fst (Docker_Secrets hostSecretExists start) = Err (Wrapf ''failed to create Docker secret: '' ?err)"
    and "installs (trace (snd (Docker_Secrets hostSecretExists start))) =
     [[''docker'', ''secret'', ''create'', ''wiki_diagram_app_key'', ?k]]"
    by (simp_all add: Let_def installs_def start_def secretName_def)
  with msg show ?thesis by simp
qed

subsection \<open>The orchestrator\<close>

lemma ensureSteps_append:
  "ensureSteps pre s = (Ok, s1) \<Longrightarrow> ensureSteps (pre @ rest) s = ensureSteps rest s1"
proof (induction pre arbitrary: s)
  case Nil
  then show ?case by simp
next
  case (Cons step pre)
  obtain name fn where step: "step = (name, fn)" by (cases step)
  obtain r s' where run: "fn (Printf (play_button @ ''  Starting: '' @ name @ ''...'' @ nl) s) = (r, s')"
    by (metis surj_pair)
  from Cons.prems step run have "r = Ok"
    by (cases r) simp_all
  with Cons step run show ?case by simp
qed

text \<open>
  C5.  In the loop of \<open>Deps.All\<close> over any list of steps: when the steps before a step
  have succeeded and that step returns an error, the loop returns the error \<open>name
  failed: \<close> wrapping it, in the state in which the step returned, whatever steps follow:
  none of them is run.  \<open>Deps.All\<close> returns what its loop returns.
\<close>

theorem failing_step_is_named_and_ends_run:
  assumes "ensureSteps pre s = (Ok, s1)"
    and "fn (Printf (play_button @ ''  Starting: '' @ name @ ''...'' @ nl) s1) = (Err e, s2)"
  shows "ensureSteps (pre @ (name, fn) # post) s = (Err (Wrapf (name @ '' failed: '') e), s2) \<and>
    errorString (Wrapf (name @ '' failed: '') e) = name @ '' failed: '' @ errorString e \<and>
    Unwrap (Wrapf (name @ '' failed: '') e) = Some e \<and>
    (Deps_steps h = pre @ (name, fn) # post \<and>
     s = Println (magnifier @ '' Ensuring all dependencies for Wiki-Diagrams are installed and verified...'') s0
       \<longrightarrow> Deps_All h s0 = (Err (Wrapf (name @ '' failed: '') e), s2))"
proof -
  have loop: "ensureSteps (pre @ (name, fn) # post) s = (Err (Wrapf (name @ '' failed: '') e), s2)"
    using ensureSteps_append [OF assms(1), of "(name, fn) # post"] assms(2) by simp
  then show ?thesis
    by (auto simp: Deps_All_def)
qed


lemmas run_defs = verifyGoVersion_def checkGoVersionLatest_def Go_Verify_def Go_Deps_def
  installGoVersion_def installGoExtract_def Mermaid_Verify_def Mermaid_VerifySystemLibs_def
  Mermaid_Deps_def libs_def Git_Verify_def Git_Config_def Git_Deps_def

theorem failing_step_is_named_and_ends_run_witness:
  "ensureSteps [(''A'', stepOk ''a runs''), (''B'', stepFail ''b runs'' exitStatus1), (''C'', stepOk ''c runs'')]
     start =
     (Err (Wrapf ''B failed: '' exitStatus1),
      \<lparr>world = 0, trace =
         [Print (play_button @ ''  Starting: A...'' @ nl), Print (''a runs'' @ nl),
          Print (check_mark @ '' Completed: A verified successfully.'' @ nl @ nl),
          Print (play_button @ ''  Starting: B...'' @ nl), Print (''b runs'' @ nl)]\<rparr>) \<and>
   fst (Deps_All (goHost (''go version go1.25.3 linux/amd64'' @ nl)) start) =
     Err (Wrapf ''Mermaid CLI failed: ''
            (Wrapf ''system library verification failed: ''
               (Wrapf ''failed to update package lists: '' exitStatus1)))"
proof -
  let ?s1 = "Printf (check_mark @ '' Completed: A verified successfully.'' @ nl @ nl)
               (Println ''a runs'' (Printf (play_button @ ''  Starting: A...'' @ nl) start))"
  have a: "ensureSteps [(''A'', stepOk ''a runs'')] start = (Ok, ?s1)"
    by (simp add: stepOk_def)
  have b: "stepFail ''b runs'' exitStatus1 (Printf (play_button @ ''  Starting: '' @ ''B'' @ ''...'' @ nl) ?s1) =
      (Err exitStatus1, Println ''b runs'' (Printf (play_button @ ''  Starting: B...'' @ nl) ?s1))"
    by (simp add: stepFail_def)
  have 1: "ensureSteps [(''A'', stepOk ''a runs''), (''B'', stepFail ''b runs'' exitStatus1), (''C'', stepOk ''c runs'')]
     start =
     (Err (Wrapf ''B failed: '' exitStatus1),
      \<lparr>world = 0, trace =
         [Print (play_button @ ''  Starting: A...'' @ nl), Print (''a runs'' @ nl),
          Print (check_mark @ '' Completed: A verified successfully.'' @ nl @ nl),
          Print (play_button @ ''  Starting: B...'' @ nl), Print (''b runs'' @ nl)]\<rparr>)"
    using failing_step_is_named_and_ends_run
      [where fn = "stepFail ''b runs'' exitStatus1" and name = "''B''" and
             post = "[(''C'', stepOk ''c runs'')]", OF a b]
    by (simp add: call_defs start_def)
  let ?h = "goHost (''go version go1.25.3 linux/amd64'' @ nl)"
  let ?s = "Println (magnifier @ '' Ensuring all dependencies for Wiki-Diagrams are installed and verified...'') start"
  let ?pre = "[(''Go toolchain'', Go_Deps ?h)]"
  let ?e = "Wrapf ''system library verification failed: '' (Wrapf ''failed to update package lists: '' exitStatus1)"
  have go: "fst (ensureSteps ?pre ?s) = Ok"
    using Fields_go_version
    by (simp add: run_defs call_defs goHost_def scripted_def start_def index_def
          TrimPrefix_def HasPrefix_def TargetGoVersion_def)
  then have c: "ensureSteps ?pre ?s = (Ok, snd (ensureSteps ?pre ?s))"
    by (simp add: prod_eq_iff)
  have w: "world (snd (ensureSteps ?pre ?s)) = 0"
    using Fields_go_version
    by (simp add: run_defs call_defs goHost_def scripted_def start_def index_def
          TrimPrefix_def HasPrefix_def TargetGoVersion_def)
  let ?t = "Printf (play_button @ ''  Starting: '' @ ''Mermaid CLI'' @ ''...'' @ nl) (snd (ensureSteps ?pre ?s))"
  have "fst (Mermaid_Deps ?h ?t) = Err ?e"
    using w by (simp add: run_defs call_defs goHost_def scripted_def)
  then have d: "Mermaid_Deps ?h ?t = (Err ?e, snd (Mermaid_Deps ?h ?t))"
    by (simp add: prod_eq_iff)
  have 2: "fst (Deps_All ?h start) = Err (Wrapf ''Mermaid CLI failed: '' ?e)"
    using failing_step_is_named_and_ends_run
      [where fn = "Mermaid_Deps ?h" and name = "''Mermaid CLI''" and
             post = "[(''Git configuration'', Git_Deps ?h)]" and h = ?h and ?s0.0 = start, OF c d]
    by (simp add: Deps_steps_def)
  from 1 2 show ?thesis by simp
qed

subsection \<open>Ensuring twice\<close>

lemma checkGoVersionLatest_world:
  "world (checkGoVersionLatest h s) =
     snd (proc h Output [''curl'', ''-s'', ''https://go.dev/VERSION?m=text''] (world s))"
  by (simp add: checkGoVersionLatest_def call_defs Let_def split: prod.splits option.splits list.splits)

lemma checkGoVersionLatest_commands:
  "commands (trace (checkGoVersionLatest h s)) =
     commands (trace s) @ [(Output, [''curl'', ''-s'', ''https://go.dev/VERSION?m=text''])]"
  by (simp add: checkGoVersionLatest_def call_defs Let_def split: prod.splits option.splits list.splits)

lemma verifyGoVersion_world_only:
  assumes "world s = world s'"
  shows "fst (verifyGoVersion h s) = fst (verifyGoVersion h s') \<and>
   world (snd (verifyGoVersion h s)) = world (snd (verifyGoVersion h s'))"
proof -
  obtain out err w1 where p: "proc h Output [''go'', ''version''] (world s) = ((out, err), w1)"
    by (metis surj_pair)
  with assms have p': "proc h Output [''go'', ''version''] (world s') = ((out, err), w1)"
    by simp
  show ?thesis
    using p p'
    by (simp add: verifyGoVersion_def call_defs Let_def checkGoVersionLatest_world
          split: option.splits)
qed

lemma verifyGoVersion_Ok_commands:
  assumes "fst (verifyGoVersion h s) = Ok"
  shows "commands (trace (snd (verifyGoVersion h s))) =
     commands (trace s) @
       [(Output, [''go'', ''version'']), (Output, [''curl'', ''-s'', ''https://go.dev/VERSION?m=text''])]"
proof -
  obtain out err w1 where p: "proc h Output [''go'', ''version''] (world s) = ((out, err), w1)"
    by (metis surj_pair)
  show ?thesis
    using p assms
    by (auto simp: verifyGoVersion_def call_defs Let_def checkGoVersionLatest_commands
          split: option.splits if_splits)
qed

lemma verifyGoVersion_readOnly:
  assumes "readOnlyQueries h"
  shows "world (snd (verifyGoVersion h s)) = world s"
proof -
  obtain out err w1 where p: "proc h Output [''go'', ''version''] (world s) = ((out, err), w1)"
    by (metis surj_pair)
  from assms have "snd (proc h Output [''go'', ''version''] (world s)) = world s"
    and c: "snd (proc h Output [''curl'', ''-s'', ''https://go.dev/VERSION?m=text''] (world s)) = world s"
    by (simp_all add: readOnlyQueries_def)
  with p have "w1 = world s" by simp
  with p c show ?thesis
    by (simp add: verifyGoVersion_def call_defs Let_def checkGoVersionLatest_world
          split: option.splits)
qed

lemma Go_Verify_eq:
  "Go_Verify h s =
     (if fst (verifyGoVersion h (Println ''Verifying Go installation...'' s)) = Ok
      then (Ok, Println ''Go toolchain is correctly installed and verified.''
                  (snd (verifyGoVersion h (Println ''Verifying Go installation...'' s))))
      else verifyGoVersion h (Println ''Verifying Go installation...'' s))"
  by (simp add: Go_Verify_def split: prod.splits result.splits)

lemma Go_Verify_world_only:
  assumes "world s = world s'"
  shows "fst (Go_Verify h s) = fst (Go_Verify h s') \<and>
   world (snd (Go_Verify h s)) = world (snd (Go_Verify h s'))"
  using verifyGoVersion_world_only
    [of "Println ''Verifying Go installation...'' s" "Println ''Verifying Go installation...'' s'" h]
    assms
  by (simp add: Go_Verify_eq call_defs)

lemma Go_Verify_Ok_commands:
  assumes "fst (Go_Verify h s) = Ok"
  shows "commands (trace (snd (Go_Verify h s))) =
     commands (trace s) @
       [(Output, [''go'', ''version'']), (Output, [''curl'', ''-s'', ''https://go.dev/VERSION?m=text''])]"
  using assms verifyGoVersion_Ok_commands [of h "Println ''Verifying Go installation...'' s"]
  by (simp add: Go_Verify_eq call_defs split: if_splits)

lemma Go_Verify_readOnly:
  assumes "readOnlyQueries h"
  shows "world (snd (Go_Verify h s)) = world s"
  using verifyGoVersion_readOnly [OF assms, of "Println ''Verifying Go installation...'' s"]
  by (simp add: Go_Verify_eq call_defs)

text \<open>\<open>Go.Deps\<close> when \<open>Go.Verify\<close> passes: nothing but the two queries of \<open>Go.Verify\<close> is run.\<close>

lemma Go_Deps_verified:
  assumes "fst (Go_Verify h s) = Ok"
  shows "fst (Go_Deps h s) = Ok"
    and "commands (trace (snd (Go_Deps h s))) =
      commands (trace s) @
        [(Output, [''go'', ''version'']), (Output, [''curl'', ''-s'', ''https://go.dev/VERSION?m=text''])]"
    and "world (snd (Go_Deps h s)) = world (snd (Go_Verify h s))"
proof -
  let ?s = "Println ''Ensuring Go dependencies...'' s"
  have w: "world ?s = world s" by (simp add: call_defs)
  from Go_Verify_world_only [OF w, of h] assms
  have ok: "fst (Go_Verify h ?s) = Ok"
    and w': "world (snd (Go_Verify h ?s)) = world (snd (Go_Verify h s))"
    by simp_all
  then obtain s1 where v: "Go_Verify h ?s = (Ok, s1)"
    by (metis prod.collapse)
  from v show "fst (Go_Deps h s) = Ok"
    by (simp add: Go_Deps_def)
  from v Go_Verify_Ok_commands [OF ok]
  show "commands (trace (snd (Go_Deps h s))) =
      commands (trace s) @
        [(Output, [''go'', ''version'']), (Output, [''curl'', ''-s'', ''https://go.dev/VERSION?m=text''])]"
    by (simp add: Go_Deps_def call_defs)
  from v w' show "world (snd (Go_Deps h s)) = world (snd (Go_Verify h s))"
    by (simp add: Go_Deps_def call_defs)
qed

text \<open>After \<open>Go.Deps\<close> has succeeded, \<open>Go.Verify\<close> passes.\<close>

lemma Go_Deps_Ok_verified:
  assumes ro: "readOnlyQueries h" and ok: "fst (Go_Deps h s) = Ok"
  shows "fst (Go_Verify h (snd (Go_Deps h s))) = Ok"
proof -
  let ?s = "Println ''Ensuring Go dependencies...'' s"
  obtain r1 s1 where v: "Go_Verify h ?s = (r1, s1)" by (metis surj_pair)
  show ?thesis
  proof (cases r1)
    case Ok
    have "world (Println ''Go is already installed and up to date.'' s1) = world ?s"
      using Go_Verify_readOnly [OF ro, of ?s] v by (simp add: call_defs)
    from Go_Verify_world_only [OF this, of h] v Ok show ?thesis
      by (simp add: Go_Deps_def)
  next
    case (Panic p)
    with v ok show ?thesis by (simp add: Go_Deps_def)
  next
    case (Err e0)
    let ?i = "Printf (''Installing Go '' @ TargetGoVersion @ ''...'' @ nl) s1"
    obtain r2 s2 where i: "installGoVersion h TargetGoVersion ?i = (r2, s2)" by (metis surj_pair)
    from v Err i ok have r2: "r2 = Ok"
      by (cases r2) (simp_all add: Go_Deps_def)
    let ?r = "Println ''Re-verifying Go installation...'' s2"
    obtain r3 s3 where rv: "Go_Verify h ?r = (r3, s3)" by (metis surj_pair)
    from v Err i r2 rv ok have r3: "r3 = Ok"
      by (cases r3) (simp_all add: Go_Deps_def)
    have "world (Println ''Go successfully installed and verified.'' s3) = world ?r"
      using Go_Verify_readOnly [OF ro, of ?r] rv by (simp add: call_defs)
    from Go_Verify_world_only [OF this, of h] v Err i r2 rv r3 show ?thesis
      by (simp add: Go_Deps_def)
  qed
qed


lemma Mermaid_Verify_world_only:
  assumes "world s = world s'"
  shows "fst (Mermaid_Verify h s) = fst (Mermaid_Verify h s') \<and>
   world (snd (Mermaid_Verify h s)) = world (snd (Mermaid_Verify h s'))"
proof -
  obtain out err w1 where p: "proc h CombinedOutput [''mmdc'', ''--version''] (world s) = ((out, err), w1)"
    by (metis surj_pair)
  with assms have p': "proc h CombinedOutput [''mmdc'', ''--version''] (world s') = ((out, err), w1)"
    by simp
  show ?thesis
    using p p' by (simp add: Mermaid_Verify_def call_defs Let_def split: option.splits)
qed

lemma Mermaid_Verify_commands:
  "commands (trace (snd (Mermaid_Verify h s))) =
     commands (trace s) @ [(CombinedOutput, [''mmdc'', ''--version''])]"
proof -
  obtain out err w1 where p: "proc h CombinedOutput [''mmdc'', ''--version''] (world s) = ((out, err), w1)"
    by (metis surj_pair)
  show ?thesis
    using p by (simp add: Mermaid_Verify_def call_defs Let_def split: option.splits)
qed

lemma Mermaid_Verify_readOnly:
  assumes "readOnlyQueries h"
  shows "world (snd (Mermaid_Verify h s)) = world s"
proof -
  obtain out err w1 where p: "proc h CombinedOutput [''mmdc'', ''--version''] (world s) = ((out, err), w1)"
    by (metis surj_pair)
  from assms have "snd (proc h CombinedOutput [''mmdc'', ''--version''] (world s)) = world s"
    by (simp add: readOnlyQueries_def)
  with p have "w1 = world s" by simp
  with p show ?thesis
    by (simp add: Mermaid_Verify_def call_defs Let_def split: option.splits)
qed

lemma missingLibs_world_only:
  "world s = world s' \<Longrightarrow>
   fst (missingLibs h pkgs missing s) = fst (missingLibs h pkgs missing s') \<and>
   world (snd (missingLibs h pkgs missing s)) = world (snd (missingLibs h pkgs missing s'))"
proof (induction pkgs arbitrary: missing s s')
  case Nil
  then show ?case by simp
next
  case (Cons pkg pkgs)
  obtain out err w1 where p: "proc h Run [''dpkg'', ''-s'', pkg] (world s) = ((out, err), w1)"
    by (metis surj_pair)
  with Cons.prems have p': "proc h Run [''dpkg'', ''-s'', pkg] (world s') = ((out, err), w1)"
    by simp
  let ?t = "\<lparr>world = w1, trace = trace s @ [Exec Run [''dpkg'', ''-s'', pkg]]\<rparr>"
  let ?t' = "\<lparr>world = w1, trace = trace s' @ [Exec Run [''dpkg'', ''-s'', pkg]]\<rparr>"
  have "world ?t = world ?t'" by simp
  from Cons.IH [OF this] p p' show ?case
    by (simp add: call_defs split: option.splits)
qed

lemma missingLibs_commands:
  "commands (trace (snd (missingLibs h pkgs missing s))) =
     commands (trace s) @ map (\<lambda>pkg. (Run, [''dpkg'', ''-s'', pkg])) pkgs"
proof (induction pkgs arbitrary: missing s)
  case Nil
  then show ?case by simp
next
  case (Cons pkg pkgs)
  obtain out err w1 where p: "proc h Run [''dpkg'', ''-s'', pkg] (world s) = ((out, err), w1)"
    by (metis surj_pair)
  with Cons.IH show ?case
    by (simp add: call_defs split: option.splits)
qed

lemma missingLibs_readOnly:
  assumes "readOnlyQueries h"
  shows "world (snd (missingLibs h pkgs missing s)) = world s"
proof (induction pkgs arbitrary: missing s)
  case Nil
  then show ?case by simp
next
  case (Cons pkg pkgs)
  obtain out err w1 where p: "proc h Run [''dpkg'', ''-s'', pkg] (world s) = ((out, err), w1)"
    by (metis surj_pair)
  from assms have "snd (proc h Run [''dpkg'', ''-s'', pkg] (world s)) = world s"
    by (simp add: readOnlyQueries_def)
  with p have "w1 = world s" by simp
  with p Cons.IH show ?case
    by (simp add: call_defs split: option.splits)
qed

text \<open>
  \<open>Mermaid.Deps\<close> when no system library is missing and \<open>Mermaid.Verify\<close> then passes: the
  queries of the library check and of \<open>Mermaid.Verify\<close> are all that is run.
\<close>

lemma Mermaid_Deps_verified:
  assumes none: "fst (missingLibs h libs [] s) = []"
    and ok: "fst (Mermaid_Verify h (snd (missingLibs h libs [] s))) = Ok"
  shows "fst (Mermaid_Deps h s) = Ok"
    and "commands (trace (snd (Mermaid_Deps h s))) =
      commands (trace s) @ map (\<lambda>pkg. (Run, [''dpkg'', ''-s'', pkg])) libs @
        [(CombinedOutput, [''mmdc'', ''--version''])]"
    and "world (snd (Mermaid_Deps h s)) = world (snd (Mermaid_Verify h (snd (missingLibs h libs [] s))))"
proof -
  let ?s = "Println (magnifier @ '' Verifying required system libraries for Mermaid CLI...'')
              (Println ''Ensuring Mermaid CLI dependencies...'' s)"
  have w: "world ?s = world s" by (simp add: call_defs)
  obtain s1 where m: "missingLibs h libs [] ?s = ([], s1)"
    using missingLibs_world_only [OF w, of h libs "[]"] none by (metis prod.collapse)
  have w1: "world s1 = world (snd (missingLibs h libs [] s))"
    using missingLibs_world_only [OF w, of h libs "[]"] m by simp
  have c1: "commands (trace s1) = commands (trace s) @ map (\<lambda>pkg. (Run, [''dpkg'', ''-s'', pkg])) libs"
    using missingLibs_commands [of h libs "[]" ?s] m by (simp add: call_defs)
  let ?s1 = "Println (check_mark @ '' All required system libraries are installed.'') s1"
  have libs: "Mermaid_VerifySystemLibs h (Println ''Ensuring Mermaid CLI dependencies...'' s) = (Ok, ?s1)"
    using m by (simp add: Mermaid_VerifySystemLibs_def)
  have w2: "world ?s1 = world (snd (missingLibs h libs [] s))"
    using w1 by (simp add: call_defs)
  obtain s2 where v: "Mermaid_Verify h ?s1 = (Ok, s2)"
    using Mermaid_Verify_world_only [OF w2, of h] ok by (metis prod.collapse)
  from libs v show "fst (Mermaid_Deps h s) = Ok"
    by (simp add: Mermaid_Deps_def)
  from libs v Mermaid_Verify_commands [of h ?s1] c1
  show "commands (trace (snd (Mermaid_Deps h s))) =
      commands (trace s) @ map (\<lambda>pkg. (Run, [''dpkg'', ''-s'', pkg])) libs @
        [(CombinedOutput, [''mmdc'', ''--version''])]"
    by (simp add: Mermaid_Deps_def call_defs)
  from libs v Mermaid_Verify_world_only [OF w2, of h]
  show "world (snd (Mermaid_Deps h s)) = world (snd (Mermaid_Verify h (snd (missingLibs h libs [] s))))"
    by (simp add: Mermaid_Deps_def call_defs)
qed

text \<open>After \<open>Mermaid.Deps\<close> has succeeded, \<open>Mermaid.Verify\<close> passes.\<close>

lemma Mermaid_Deps_Ok_verified:
  assumes ro: "readOnlyQueries h" and ok: "fst (Mermaid_Deps h s) = Ok"
  shows "fst (Mermaid_Verify h (snd (Mermaid_Deps h s))) = Ok"
proof -
  obtain r1 s1 where l: "Mermaid_VerifySystemLibs h (Println ''Ensuring Mermaid CLI dependencies...'' s) = (r1, s1)"
    by (metis surj_pair)
  from l ok have r1: "r1 = Ok"
    by (cases r1) (simp_all add: Mermaid_Deps_def)
  obtain r2 s2 where v: "Mermaid_Verify h s1 = (r2, s2)" by (metis surj_pair)
  show ?thesis
  proof (cases r2)
    case Ok
    have "world (Println (check_mark @ '' Mermaid CLI already installed and up to date.'') s2) = world s1"
      using Mermaid_Verify_readOnly [OF ro, of s1] v by (simp add: call_defs)
    from Mermaid_Verify_world_only [OF this, of h] l r1 v Ok show ?thesis
      by (simp add: Mermaid_Deps_def)
  next
    case (Panic p)
    with l r1 v ok show ?thesis by (simp add: Mermaid_Deps_def)
  next
    case (Err e0)
    let ?i = "Printf (''Installing Mermaid CLI '' @ TargetMermaidVersion @ '' globally via npm...'' @ nl) s2"
    obtain r3 s3 where i: "shRunV h [''npm'', ''install'', ''-g'',
        ''@mermaid-js/mermaid-cli@'' @ TargetMermaidVersion] ?i = (r3, s3)"
      by (metis surj_pair)
    from l r1 v Err i ok have r3: "r3 = None"
      by (cases r3) (simp_all add: Mermaid_Deps_def)
    let ?r = "Println ''Re-verifying Mermaid installation...'' s3"
    obtain r4 s4 where rv: "Mermaid_Verify h ?r = (r4, s4)" by (metis surj_pair)
    from l r1 v Err i r3 rv ok have r4: "r4 = Ok"
      by (cases r4) (simp_all add: Mermaid_Deps_def)
    have "world (Printf (check_mark @ '' Mermaid CLI '' @ TargetMermaidVersion @
                       '' successfully installed and verified.'' @ nl) s4) = world ?r"
      using Mermaid_Verify_readOnly [OF ro, of ?r] rv by (simp add: call_defs)
    from Mermaid_Verify_world_only [OF this, of h] l r1 v Err i r3 rv r4 show ?thesis
      by (simp add: Mermaid_Deps_def)
  qed
qed


lemma installs_commands:
  "commands t' = commands t @ cs \<Longrightarrow> \<forall>c\<in>set cs. fst c \<noteq> ShRunV \<Longrightarrow> installs t' = installs t"
  by (simp add: installs_def)

text \<open>
  C3, as stated, fails for \<open>Mermaid.Deps\<close>: it starts with the check of the system
  libraries, which installs what is missing, and calls \<open>Mermaid.Verify\<close> after it.  On a
  host with the Mermaid CLI 10.9.0 and without the package \<open>libdrm2\<close>, \<open>Mermaid.Verify\<close>
  passes, and \<open>Mermaid.Deps\<close> starts with \<open>dpkg -s\<close> and runs \<open>apt-get update\<close> and \<open>apt-get
  install\<close>.
\<close>

theorem mermaid_deps_installs_although_verified:
  "fst (Mermaid_Verify (mermaidHost (''10.9.0'' @ nl) ''libdrm2'') start) = Ok \<and>
   fst (Mermaid_Deps (mermaidHost (''10.9.0'' @ nl) ''libdrm2'') start) = Ok \<and>
   hd (commands (trace (snd (Mermaid_Deps (mermaidHost (''10.9.0'' @ nl) ''libdrm2'') start)))) =
     (Run, [''dpkg'', ''-s'', ''libatk1.0-0t64'']) \<and>
   installs (trace (snd (Mermaid_Deps (mermaidHost (''10.9.0'' @ nl) ''libdrm2'') start))) =
     [[''sudo'', ''apt-get'', ''update'', ''-q''], [''sudo'', ''apt-get'', ''install'', ''-y'', ''libdrm2'']]"
  using TrimSpace_mmdc
  by (simp add: run_defs call_defs mermaidHost_def scripted_def start_def installs_def
        TargetMermaidVersion_def HasPrefix_def)

text \<open>
  C3, amended.  \<open>Go.Deps\<close> first calls \<open>Go.Verify\<close> and, when it passes, returns \<open>nil\<close>
  having run only the two queries of \<open>Go.Verify\<close>.  \<open>Mermaid.Deps\<close> first runs the check of
  the system libraries and then \<open>Mermaid.Verify\<close>; when no library is missing and
  \<open>Mermaid.Verify\<close> passes, it returns \<open>nil\<close> having run only the queries \<open>dpkg -s\<close> and
  \<open>mmdc --version\<close>.  On a host that the queries leave unchanged, a second call right
  after a successful one returns \<open>nil\<close>, leaves the host as it is and runs no installer
  (for \<open>Mermaid.Deps\<close>: when the second check of the libraries finds none missing).
\<close>

theorem ensure_returns_when_verified_and_twice_is_once:
  "(fst (Go_Verify h s) = Ok \<longrightarrow>
      fst (Go_Deps h s) = Ok \<and>
      commands (trace (snd (Go_Deps h s))) =
        commands (trace s) @
          [(Output, [''go'', ''version'']),
           (Output, [''curl'', ''-s'', ''https://go.dev/VERSION?m=text''])]) \<and>
   (fst (missingLibs h libs [] s) = [] \<and>
    fst (Mermaid_Verify h (snd (missingLibs h libs [] s))) = Ok \<longrightarrow>
      fst (Mermaid_Deps h s) = Ok \<and>
      commands (trace (snd (Mermaid_Deps h s))) =
        commands (trace s) @ map (\<lambda>pkg. (Run, [''dpkg'', ''-s'', pkg])) libs @
          [(CombinedOutput, [''mmdc'', ''--version''])]) \<and>
   (readOnlyQueries h \<and> fst (Go_Deps h s) = Ok \<longrightarrow>
      fst (Go_Deps h (snd (Go_Deps h s))) = Ok \<and>
      world (snd (Go_Deps h (snd (Go_Deps h s)))) = world (snd (Go_Deps h s)) \<and>
      installs (trace (snd (Go_Deps h (snd (Go_Deps h s))))) = installs (trace (snd (Go_Deps h s)))) \<and>
   (readOnlyQueries h \<and> fst (Mermaid_Deps h s) = Ok \<and>
    fst (missingLibs h libs [] (snd (Mermaid_Deps h s))) = [] \<longrightarrow>
      fst (Mermaid_Deps h (snd (Mermaid_Deps h s))) = Ok \<and>
      world (snd (Mermaid_Deps h (snd (Mermaid_Deps h s)))) = world (snd (Mermaid_Deps h s)) \<and>
      installs (trace (snd (Mermaid_Deps h (snd (Mermaid_Deps h s))))) =
        installs (trace (snd (Mermaid_Deps h s))))"
proof (intro conjI impI)
  assume "fst (Go_Verify h s) = Ok"
  then show "fst (Go_Deps h s) = Ok"
    and "commands (trace (snd (Go_Deps h s))) =
        commands (trace s) @
          [(Output, [''go'', ''version'']),
           (Output, [''curl'', ''-s'', ''https://go.dev/VERSION?m=text''])]"
    by (rule Go_Deps_verified)+
next
  assume a: "fst (missingLibs h libs [] s) = [] \<and>
    fst (Mermaid_Verify h (snd (missingLibs h libs [] s))) = Ok"
  then show "fst (Mermaid_Deps h s) = Ok"
    by (simp add: Mermaid_Deps_verified(1))
  from a show "commands (trace (snd (Mermaid_Deps h s))) =
        commands (trace s) @ map (\<lambda>pkg. (Run, [''dpkg'', ''-s'', pkg])) libs @
          [(CombinedOutput, [''mmdc'', ''--version''])]"
    by (simp add: Mermaid_Deps_verified(2))
next
  assume a: "readOnlyQueries h \<and> fst (Go_Deps h s) = Ok"
  let ?s1 = "snd (Go_Deps h s)"
  from a have v: "fst (Go_Verify h ?s1) = Ok"
    by (simp add: Go_Deps_Ok_verified)
  from Go_Deps_verified(1) [OF v] show "fst (Go_Deps h ?s1) = Ok" .
  from Go_Deps_verified(3) [OF v] a show "world (snd (Go_Deps h ?s1)) = world ?s1"
    by (simp add: Go_Verify_readOnly)
  from Go_Deps_verified(2) [OF v] show "installs (trace (snd (Go_Deps h ?s1))) = installs (trace ?s1)"
    by (rule installs_commands) simp
next
  assume a: "readOnlyQueries h \<and> fst (Mermaid_Deps h s) = Ok \<and>
    fst (missingLibs h libs [] (snd (Mermaid_Deps h s))) = []"
  let ?s1 = "snd (Mermaid_Deps h s)"
  from a have ro: "readOnlyQueries h" and none: "fst (missingLibs h libs [] ?s1) = []"
    by simp_all
  have w: "world (snd (missingLibs h libs [] ?s1)) = world ?s1"
    by (rule missingLibs_readOnly [OF ro])
  from a have "fst (Mermaid_Verify h ?s1) = Ok"
    by (simp add: Mermaid_Deps_Ok_verified)
  with Mermaid_Verify_world_only [OF w, of h]
  have v: "fst (Mermaid_Verify h (snd (missingLibs h libs [] ?s1))) = Ok"
    by simp
  from Mermaid_Deps_verified(1) [OF none v] show "fst (Mermaid_Deps h ?s1) = Ok" .
  from Mermaid_Deps_verified(3) [OF none v] w ro
  show "world (snd (Mermaid_Deps h ?s1)) = world ?s1"
    by (simp add: Mermaid_Verify_readOnly)
  from Mermaid_Deps_verified(2) [OF none v]
  show "installs (trace (snd (Mermaid_Deps h ?s1))) = installs (trace ?s1)"
    by (rule installs_commands) auto
qed


lemma readOnlyQueries_hostFresh: "readOnlyQueries hostFresh"
  by (simp add: readOnlyQueries_def hostFresh_def scripted_def runFresh_def)

lemma TrimSpace_latest:
  "TrimSpace (''go1.25.3'' @ nl @ ''time 2025-10-13T16:08:43Z'' @ nl) =
     ''go1.25.3'' @ nl @ ''time 2025-10-13T16:08:43Z''"
  by (simp add: eval_defs nl_def)

lemma TrimSpace_go: "TrimSpace ''go1.25.3'' = ''go1.25.3''"
  by (simp add: eval_defs)

lemma Go_Deps_hostFresh:
  "fst (Go_Deps hostFresh start) = Ok \<and> world (snd (Go_Deps hostFresh start)) = 1 \<and>
   installs (trace (snd (Go_Deps hostFresh start))) =
     [[''curl'', ''-L'', ''-o'', ''/tmp/go1.25.3.linux-amd64.tar.gz'',
       ''https://go.dev/dl/go1.25.3.linux-amd64.tar.gz''],
      [''curl'', ''-s'', ''-L'', ''-o'', ''/tmp/go1.25.3.linux-amd64.tar.gz.sha256'',
       ''https://go.dev/dl/go1.25.3.linux-amd64.tar.gz.sha256''],
      [''sha256sum'', ''-c'', ''/tmp/go1.25.3.linux-amd64.tar.gz.sha256''],
      [''sudo'', ''rm'', ''-rf'', ''/usr/local/go''],
      [''sudo'', ''tar'', ''-C'', ''/usr/local'', ''-xzf'', ''/tmp/go1.25.3.linux-amd64.tar.gz''],
      [''/usr/local/go/bin/go'', ''version'']]"
  using Fields_go_version Fields_go_old TrimSpace_latest TrimSpace_go
  by (simp add: run_defs call_defs hostFresh_def scripted_def runFresh_def start_def installs_def
        index_def TrimPrefix_def HasPrefix_def TargetGoVersion_def nl_def Let_def)

theorem ensure_returns_when_verified_and_twice_is_once_witness:
  "fst (Go_Deps hostFresh start) = Ok \<and>
   length (installs (trace (snd (Go_Deps hostFresh start)))) = 6 \<and>
   fst (Go_Deps hostFresh (snd (Go_Deps hostFresh start))) = Ok \<and>
   world (snd (Go_Deps hostFresh (snd (Go_Deps hostFresh start)))) = 1 \<and>
   length (installs (trace (snd (Go_Deps hostFresh (snd (Go_Deps hostFresh start)))))) = 6 \<and>
   fst (Mermaid_Deps hostFresh start) = Ok \<and>
   installs (trace (snd (Mermaid_Deps hostFresh start))) = [] \<and>
   fst (Mermaid_Deps hostFresh (snd (Mermaid_Deps hostFresh start))) = Ok \<and>
   installs (trace (snd (Mermaid_Deps hostFresh (snd (Mermaid_Deps hostFresh start))))) = []"
proof -
  note main = ensure_returns_when_verified_and_twice_is_once
  have none: "fst (missingLibs hostFresh pkgs [] s) = []" for pkgs s
    by (induction pkgs arbitrary: s)
       (simp_all add: call_defs hostFresh_def scripted_def runFresh_def)
  have mv: "fst (Mermaid_Verify hostFresh s) = Ok" for s
    using TrimSpace_mmdc
    by (simp add: Mermaid_Verify_def call_defs hostFresh_def scripted_def runFresh_def
          TargetMermaidVersion_def HasPrefix_def)
  from main [of hostFresh start] none mv
  have m1: "fst (Mermaid_Deps hostFresh start) = Ok"
    and c1: "commands (trace (snd (Mermaid_Deps hostFresh start))) =
        commands (trace start) @ map (\<lambda>pkg. (Run, [''dpkg'', ''-s'', pkg])) libs @
          [(CombinedOutput, [''mmdc'', ''--version''])]"
    by simp_all
  have i1: "installs (trace (snd (Mermaid_Deps hostFresh start))) = []"
    using installs_commands [OF c1] by (auto simp: start_def installs_def)
  from main [of hostFresh start] readOnlyQueries_hostFresh m1 none i1
  have m2: "fst (Mermaid_Deps hostFresh (snd (Mermaid_Deps hostFresh start))) = Ok"
    and i2: "installs (trace (snd (Mermaid_Deps hostFresh (snd (Mermaid_Deps hostFresh start))))) = []"
    by simp_all
  from main [of hostFresh start] readOnlyQueries_hostFresh Go_Deps_hostFresh
  have g2: "fst (Go_Deps hostFresh (snd (Go_Deps hostFresh start))) = Ok"
    and w2: "world (snd (Go_Deps hostFresh (snd (Go_Deps hostFresh start)))) = 1"
    and j2: "installs (trace (snd (Go_Deps hostFresh (snd (Go_Deps hostFresh start))))) =
      installs (trace (snd (Go_Deps hostFresh start)))"
    by simp_all
  from Go_Deps_hostFresh j2 g2 w2 m1 i1 m2 i2 show ?thesis by simp
qed

end
